theory Spec2Isabelle
  imports Complex_Main "HOL-Library.AList" "HOL-Library.Multiset"
begin

section \<open>CUR selection of samples and features (bindings/rascal/utils/cur.py)\<close>

subsection \<open>Data\<close>

text \<open>
  A dense feature matrix \<open>X[n_samples, n_features]\<close> is the list of its rows; all rows
  have the same length. Array entries are floating-point numbers in the source; the model
  computes with real numbers, so it says nothing about rounding or NaN.
\<close>

type_synonym matrix = "real list list"

definition n_rows :: "matrix \<Rightarrow> nat" where
  "n_rows X = length X"

definition n_cols :: "matrix \<Rightarrow> nat" where
  "n_cols X = (case X of [] \<Rightarrow> 0 | r # _ \<Rightarrow> length r)"

text \<open>
  The exceptions that the modelled code paths can raise; \<open>ArpackError\<close> is what
  \<open>svds\<close> raises when its iteration does not converge.
\<close>

datatype error = ValueError | UnboundLocalError | TypeError | KeyError | IndexError
  | AttributeError | ArpackError

text \<open>
  \<open>is_deterministic\<close> is tested with \<open>is True\<close> and \<open>is False\<close>: any other
  object takes neither branch.
\<close>

datatype pyflag = PyTrue | PyFalse | PyOther

subsection \<open>The numerical library\<close>

text \<open>
  \<open>do_CUR\<close> calls numpy and scipy, which are not part of the repository. What they
  compute is a parameter of the model. The state of the process that these calls read
  and write is a pair: the state \<open>'g\<close> of numpy's process-wide random generator, and
  the remaining state \<open>'h\<close> that the solver depends on.
  \<^item> \<open>svd_factors X k w\<close>: what \<open>scipy.sparse.linalg.svds(X, k)\<close> does in process
    state \<open>w\<close> once it has accepted its arguments. The call passes no starting vector,
    so the solver starts from a random one: the factors \<open>(U, VT)\<close> that it returns
    (\<open>U\<close> is \<open>n_samples \<times> k\<close>, \<open>VT\<close> is \<open>k \<times> n_features\<close>) depend on the state
    and the state changes; the solver can also fail to converge and raise.
  \<^item> \<open>rng_seed s\<close>: the state of the process-wide generator after
    \<open>np.random.seed(s)\<close>, for a seed that numpy accepts;
  \<^item> \<open>rng_next g\<close>: one uniform variate drawn from the generator in state \<open>g\<close>, and the
    state after the draw;
  \<^item> \<open>argsort keys\<close>: \<open>np.argsort(keys)\<close> with its default \<open>kind\<close>.
\<close>

record ('g, 'h) numlib =
  svd_factors :: "matrix \<Rightarrow> nat \<Rightarrow> 'g \<times> 'h \<Rightarrow> (error + (matrix \<times> matrix)) \<times> ('g \<times> 'h)"
  rng_seed :: "int \<Rightarrow> 'g"
  rng_next :: "'g \<Rightarrow> real \<times> 'g"
  argsort :: "real list \<Rightarrow> nat list"

text \<open>
  \<open>svds(X, k)\<close> checks its rank argument before it draws or factorises anything and
  raises \<open>ValueError\<close> unless \<open>1 \<le> k < min(X.shape)\<close>.
\<close>

definition svds ::
  "('g, 'h) numlib \<Rightarrow> matrix \<Rightarrow> int \<Rightarrow> 'g \<times> 'h \<Rightarrow> (error + (matrix \<times> matrix)) \<times> ('g \<times> 'h)"
where
  "svds L X k w =
     (if k \<le> 0 \<or> int (min (n_rows X) (n_cols X)) \<le> k then (Inl ValueError, w)
      else svd_factors L X (nat k) w)"

text \<open>
  \<open>np.random.seed(seed)\<close> raises \<open>ValueError\<close> unless \<open>0 \<le> seed < 2\<^sup>3\<^sup>2\<close>.
\<close>

definition random_seed :: "('g, 'h) numlib \<Rightarrow> int \<Rightarrow> error + 'g" where
  "random_seed L s = (if s < 0 \<or> 2 ^ 32 \<le> s then Inl ValueError else Inr (rng_seed L s))"

text \<open>\<open>np.random.rand(n)\<close>: \<open>n\<close> successive draws from the process-wide generator.\<close>

fun rand :: "('g, 'h) numlib \<Rightarrow> nat \<Rightarrow> 'g \<Rightarrow> real list \<times> 'g" where
  "rand L 0 g = ([], g)"
| "rand L (Suc n) g =
     (case rng_next L g of (u, g') \<Rightarrow>
        (case rand L n g' of (us, g'') \<Rightarrow> (u # us, g'')))"

text \<open>\<open>np.mean(np.square(U), axis=1)\<close>: one mean per row.\<close>

definition mean_square_rows :: "matrix \<Rightarrow> real list" where
  "mean_square_rows U = map (\<lambda>r. (\<Sum>x\<leftarrow>r. x\<^sup>2) / real (length r)) U"

text \<open>\<open>np.mean(np.square(VT), axis=0)\<close>: one mean per column.\<close>

definition mean_square_cols :: "matrix \<Rightarrow> real list" where
  "mean_square_cols VT =
     map (\<lambda>j. (\<Sum>r\<leftarrow>VT. (r ! j)\<^sup>2) / real (length VT)) [0..<n_cols VT]"

text \<open>Python's substring test \<open>needle in hay\<close>.\<close>

fun py_in :: "string \<Rightarrow> string \<Rightarrow> bool" where
  "py_in needle [] = (needle = [])"
| "py_in needle (c # cs) = (take (length needle) (c # cs) = needle \<or> py_in needle cs)"

text \<open>Python's slice \<open>xs[:k]\<close>; a negative \<open>k\<close> counts from the end.\<close>

definition py_prefix :: "'a list \<Rightarrow> int \<Rightarrow> 'a list" where
  "py_prefix xs k =
     (if k < 0 then take (nat (int (length xs) + k)) xs else take (nat k) xs)"

subsection \<open>do_CUR\<close>

text \<open>
  The leverage weights bound by lines 21--24; \<open>None\<close> when \<open>act_on\<close> names neither axis
  and the variable stays unbound.
\<close>

definition leverage_weights :: "string \<Rightarrow> matrix \<Rightarrow> matrix \<Rightarrow> real list option" where
  "leverage_weights act_on U VT =
     (if py_in ''sample'' act_on then Some (mean_square_rows U)
      else if py_in ''feature'' act_on then Some (mean_square_cols VT)
      else None)"

text \<open>
  \<open>do_CUR(X, Nsel, act_on, is_deterministic, seed)\<close>, with the state of the process
  passed in and returned. The \<open>verbose\<close> block (lines 33--43) computes the
  reconstruction error from \<open>X\<close> and \<open>sel\<close> and prints it; it assigns neither and is
  left out.
\<close>

definition do_CUR ::
  "('g, 'h) numlib \<Rightarrow> matrix \<Rightarrow> int \<Rightarrow> string \<Rightarrow> pyflag \<Rightarrow> int \<Rightarrow> 'g \<times> 'h
     \<Rightarrow> (error + nat list) \<times> ('g \<times> 'h)"
where
  "do_CUR L X Nsel act_on is_deterministic seed w =
     (case svds L X Nsel w of
        (Inl e, w1) \<Rightarrow> (Inl e, w1)
      | (Inr (U, VT), w1) \<Rightarrow>
          (case is_deterministic of
             PyTrue \<Rightarrow>
               (case leverage_weights act_on U VT of
                  None \<Rightarrow> (Inl UnboundLocalError, w1)
                | Some weights \<Rightarrow>
                    (Inr (py_prefix (argsort L (map uminus weights)) Nsel), w1))
           | PyFalse \<Rightarrow>
               (case random_seed L seed of
                  Inl e \<Rightarrow> (Inl e, w1)
                | Inr g0 \<Rightarrow>
                    (case leverage_weights act_on U VT of
                       None \<Rightarrow> (Inl UnboundLocalError, (g0, snd w1))
                     | Some weights \<Rightarrow>
                         (case rand L (length weights) g0 of
                            (us, g1) \<Rightarrow>
                              (Inr (py_prefix (argsort L (map2 (-) us weights)) Nsel),
                               (g1, snd w1)))))
           | PyOther \<Rightarrow> (Inl UnboundLocalError, w1)))"

subsection \<open>What the library promises\<close>

text \<open>
  The shapes of the factors that \<open>svds(X, k)\<close> returns: \<open>U\<close> has one row of \<open>k\<close>
  entries per sample, \<open>VT\<close> has \<open>k\<close> rows of one entry per feature.
\<close>

definition factors_shape_ok :: "matrix \<Rightarrow> nat \<Rightarrow> matrix \<Rightarrow> matrix \<Rightarrow> bool" where
  "factors_shape_ok X k U VT =
     (length U = n_rows X \<and> list_all (\<lambda>r. length r = k) U \<and>
      length VT = k \<and> list_all (\<lambda>r. length r = n_cols X) VT)"

text \<open>In process state \<open>w\<close> the solver raises or returns factors of these shapes.\<close>

definition svd_shape_ok :: "('g, 'h) numlib \<Rightarrow> matrix \<Rightarrow> nat \<Rightarrow> 'g \<times> 'h \<Rightarrow> bool" where
  "svd_shape_ok L X k w =
     (case fst (svd_factors L X k w) of
        Inl e \<Rightarrow> True
      | Inr (U, VT) \<Rightarrow> factors_shape_ok X k U VT)"

text \<open>
  What \<open>np.argsort\<close> promises for every sort kind: the result is a permutation of the
  positions \<open>0, \<dots>, n - 1\<close> that lists the keys in ascending order. The default kind
  (\<open>quicksort\<close>) is documented as not stable, so the order of positions with equal
  keys is not part of the promise.
\<close>

definition argsort_ok :: "('g, 'h) numlib \<Rightarrow> real list \<Rightarrow> bool" where
  "argsort_ok L keys =
     (sort (argsort L keys) = [0..<length keys] \<and>
      sorted (map (\<lambda>i. keys ! i) (argsort L keys)))"

text \<open>A stable argsort: positions with equal keys stay in ascending order.\<close>

definition stable_argsort :: "real list \<Rightarrow> nat list" where
  "stable_argsort keys = sort_key (\<lambda>i. keys ! i) [0..<length keys]"

text \<open>
  A small executable instance of the library, on which the model can be run at
  concrete inputs. The solver's own state is the number of calls made so far. Its
  factors have the shapes of \<open>svds\<close>'s factors: \<open>U\<close> is \<open>k\<close> consecutive columns of
  \<open>X\<close> and \<open>VT\<close> the \<open>k\<close> rows of \<open>X\<close> at the same positions, starting at a position
  that moves with the number of calls made so far, so that, as with the random starting
  vector of \<open>svds\<close>, two calls on one matrix need not return the same factors. On a
  matrix such as \<open>[[1, 0], [0, 1], [0, 0]]\<close>, whose singular values are all 1, these
  are singular vectors of \<open>X\<close>: every column is a left singular vector for the
  largest singular value, and which of them a call returns is not determined by \<open>X\<close>.
  On other matrices they have the shapes only. On a matrix of zeros the solver raises
  \<open>ArpackError\<close>, as \<open>svds\<close> does.
  The generator is a congruential generator modulo 16. The general theorems below hold
  for every library and do not refer to this instance.
\<close>

definition demo_lib :: "(nat, nat) numlib" where
  "demo_lib =
     \<lparr> svd_factors =
         (\<lambda>X k w.
            if list_all (list_all (\<lambda>x. x = 0)) X then (Inl ArpackError, (fst w, Suc (snd w)))
            else (Inr (map (\<lambda>r. take k (drop (snd w mod (min (n_rows X) (n_cols X) - k + 1)) r)) X,
                       take k (drop (snd w mod (min (n_rows X) (n_cols X) - k + 1)) X)),
                  (fst w, Suc (snd w)))),
       rng_seed = (\<lambda>s. nat (s mod 16)),
       rng_next = (\<lambda>g. (real ((5 * g + 3) mod 16) / 16, (5 * g + 3) mod 16)),
       argsort = stable_argsort \<rparr>"

text \<open>The number of candidates: rows for a sample axis, columns otherwise.\<close>

definition axis_size :: "string \<Rightarrow> matrix \<Rightarrow> nat" where
  "axis_size act_on X = (if py_in ''sample'' act_on then n_rows X else n_cols X)"


subsection \<open>The stochastic selection as the specification words it\<close>

datatype axis = Sample | Feature

definition axis_name :: "axis \<Rightarrow> string" where
  "axis_name ax = (case ax of Sample \<Rightarrow> ''sample'' | Feature \<Rightarrow> ''feature'')"

text \<open>
  The weight of candidate \<open>i\<close>: the mean of the squared entries of row \<open>i\<close> of \<open>U\<close>
  (sample axis) or of column \<open>i\<close> of \<open>VT\<close> (feature axis).
\<close>

definition candidate_weight :: "axis \<Rightarrow> matrix \<Rightarrow> matrix \<Rightarrow> nat \<Rightarrow> real" where
  "candidate_weight ax U VT i =
     (case ax of
        Sample \<Rightarrow> (\<Sum>x\<leftarrow>U ! i. x\<^sup>2) / real (length (U ! i))
      | Feature \<Rightarrow> (\<Sum>r\<leftarrow>VT. (r ! i)\<^sup>2) / real (length VT))"

text \<open>
  The reference computation: factorise at rank \<open>budget\<close> (in process state \<open>w\<close>; the
  exception if the solver raises); seed a generator with \<open>s\<close>; draw one variate per
  candidate; order the candidates ascending by \<open>uniform - weight\<close>; keep the first
  \<open>budget\<close>.
\<close>

definition reference_stochastic_selection ::
  "('g, 'h) numlib \<Rightarrow> matrix \<Rightarrow> nat \<Rightarrow> axis \<Rightarrow> int \<Rightarrow> 'g \<times> 'h \<Rightarrow> error + nat list"
where
  "reference_stochastic_selection L X budget ax s w =
     (case fst (svd_factors L X budget w) of
        Inl e \<Rightarrow> Inl e
      | Inr (U, VT) \<Rightarrow>
          (let n = (case ax of Sample \<Rightarrow> n_rows X | Feature \<Rightarrow> n_cols X);
               uniform = fst (rand L n (rng_seed L s))
           in Inr (take budget
                (argsort L (map (\<lambda>i. uniform ! i - candidate_weight ax U VT i) [0..<n])))))"

section \<open>CURFilter\<close>

subsection \<open>State of a filter\<close>

text \<open>
  \<open>Nselect\<close> is one integer, or for \<open>'sample per species'\<close> a dictionary from atom type
  to integer. Dictionaries are association lists in insertion order, with distinct keys.
\<close>

datatype budget = Count int | BySpecies "(int \<times> int) list"

text \<open>
  \<open>selected_ids\<close> holds what the last \<open>transform\<close> selected: the converter's result
  (type \<open>'s\<close>) in the sample modes, the sorted feature indices in feature mode.
\<close>

datatype 's ids = Remapped 's | FeatureIds "nat list"

text \<open>
  The attributes of a \<open>CURFilter\<close>. An attribute that holds \<open>None\<close>, or that does not
  exist yet (\<open>_XX\<close> and the two \<open>fps_\<close> dictionaries before a per-species \<open>fit\<close>), is
  \<open>None\<close>.
\<close>

record ('r, 's) CURFilter =
  representation :: 'r
  Nselect :: budget
  act_on :: string
  is_deterministic :: pyflag
  seed :: int
  selected_ids :: "'s ids option"
  selected_sample_ids :: "nat list option"
  selected_sample_ids_by_sp :: "(int \<times> nat list) list option"
  selected_feature_ids_global :: "nat list option"
  XX :: "(int \<times> matrix) list option"
  fps_minmax_d2_by_sp :: "(int \<times> real) list option"
  fps_hausforff_d2_by_sp :: "(int \<times> real) list option"

text \<open>The dictionary of \<open>_get_data\<close>, one field per key.\<close>

record 's filter_data =
  data_selected_ids :: "'s ids option"
  data_selected_sample_ids :: "nat list option"
  data_selected_sample_ids_by_sp :: "(int \<times> nat list) list option"
  data_selected_feature_ids_global :: "nat list option"

subsection \<open>Collaborators\<close>

text \<open>
  The structure collection, the representation calculator, the index helpers of
  \<open>utils/filter_utils\<close> and \<open>SparsePoints\<close> are defined in other modules; they are
  parameters of the model, each returning a value or raising:
  \<^item> \<open>get_features managers representation\<close>: the dense feature matrix;
  \<^item> \<open>get_index_mappings_sample_per_species managers sps\<close>: the index tables
    \<open>(strides_by_sp, global_counter, map_by_manager)\<close> (type \<open>'t\<close>) and \<open>indices_by_sp\<close>,
    the rows of the feature matrix that belong to each species;
  \<^item> \<open>convert_selected_global_index2rascal_sample_per_species managers
    selected_ids_by_sp tables sps\<close>;
  \<^item> \<open>get_index_mappings_sample managers\<close>: the index tables \<open>(strides, _, map_by_manager)\<close>;
  \<^item> \<open>convert_selected_global_index2rascal_sample managers selected_ids_global tables\<close>;
  \<^item> \<open>sparse_points representation managers selected_ids\<close>:
    \<open>SparsePoints(representation)\<close> after \<open>extend(managers, selected_ids)\<close>;
  \<^item> \<open>get_feature_index_mapping representation managers\<close>: for each feature index the
    dictionary of its named coefficient indices.
\<close>

record ('m, 'r, 't, 's, 'p) collaborators =
  get_features :: "'m \<Rightarrow> 'r \<Rightarrow> error + matrix"
  get_index_mappings_sample_per_species ::
    "'m \<Rightarrow> int list \<Rightarrow> error + ('t \<times> (int \<times> nat list) list)"
  convert_selected_global_index2rascal_sample_per_species ::
    "'m \<Rightarrow> (int \<times> nat list) list \<Rightarrow> 't \<Rightarrow> int list \<Rightarrow> error + 's"
  get_index_mappings_sample :: "'m \<Rightarrow> error + 't"
  convert_selected_global_index2rascal_sample :: "'m \<Rightarrow> nat list \<Rightarrow> 't \<Rightarrow> error + 's"
  sparse_points :: "'r \<Rightarrow> 'm \<Rightarrow> 's \<Rightarrow> error + 'p"
  get_feature_index_mapping :: "'r \<Rightarrow> 'm \<Rightarrow> error + (nat \<times> (string \<times> int) list) list"

subsection \<open>Construction and persistence\<close>

definition init ::
  "'r \<Rightarrow> budget \<Rightarrow> string \<Rightarrow> pyflag \<Rightarrow> int \<Rightarrow> error + ('r, 's) CURFilter"
where
  "init rep n act det sd =
     (if act \<in> set [''sample'', ''sample per species'', ''feature'']
      then Inr \<lparr> representation = rep, Nselect = n, act_on = act, is_deterministic = det,
                 seed = sd, selected_ids = None, selected_sample_ids = None,
                 selected_sample_ids_by_sp = None, selected_feature_ids_global = None,
                 XX = None, fps_minmax_d2_by_sp = None, fps_hausforff_d2_by_sp = None \<rparr>
      else Inl ValueError)"

definition get_data :: "('r, 's) CURFilter \<Rightarrow> 's filter_data" where
  "get_data F =
     \<lparr> data_selected_ids = selected_ids F,
       data_selected_sample_ids = selected_sample_ids F,
       data_selected_sample_ids_by_sp = selected_sample_ids_by_sp F,
       data_selected_feature_ids_global = selected_feature_ids_global F \<rparr>"

definition set_data :: "('r, 's) CURFilter \<Rightarrow> 's filter_data \<Rightarrow> ('r, 's) CURFilter" where
  "set_data F data =
     F\<lparr> selected_ids := data_selected_ids data,
        selected_sample_ids := data_selected_sample_ids data,
        selected_sample_ids_by_sp := data_selected_sample_ids_by_sp data,
        selected_feature_ids_global := data_selected_feature_ids_global data \<rparr>"

text \<open>\<open>_get_init_params\<close>, and the construction of a filter from these parameters.\<close>

definition get_init_params ::
  "('r, 's) CURFilter \<Rightarrow> 'r \<times> budget \<times> string \<times> pyflag \<times> int"
where
  "get_init_params F = (representation F, Nselect F, act_on F, is_deterministic F, seed F)"

definition init_from ::
  "'r \<times> budget \<times> string \<times> pyflag \<times> int \<Rightarrow> error + ('r, 's) CURFilter"
where
  "init_from params = (case params of (rep, n, act, det, sd) \<Rightarrow> init rep n act det sd)"

subsection \<open>fit\<close>

text \<open>\<open>X[indices]\<close>: the rows at the listed positions; a position past the end raises.\<close>

definition take_rows :: "matrix \<Rightarrow> nat list \<Rightarrow> error + matrix" where
  "take_rows X idx =
     (if list_all (\<lambda>i. i < length X) idx then Inr (map (\<lambda>i. X ! i) idx)
      else Inl IndexError)"

text \<open>Lines 133--135: the loop that fills \<open>X_by_sp\<close>.\<close>

fun organize_by_species ::
  "matrix \<Rightarrow> (int \<times> nat list) list \<Rightarrow> int list \<Rightarrow> (int \<times> matrix) list
     \<Rightarrow> error + (int \<times> matrix) list"
where
  "organize_by_species X indices_by_sp [] X_by_sp = Inr X_by_sp"
| "organize_by_species X indices_by_sp (sp # sps) X_by_sp =
     (case map_of indices_by_sp sp of
        None \<Rightarrow> Inl KeyError
      | Some idx \<Rightarrow>
          (case take_rows X idx of
             Inl e \<Rightarrow> Inl e
           | Inr M \<Rightarrow> organize_by_species X indices_by_sp sps (AList.update sp M X_by_sp)))"

text \<open>
  Lines 142--145: the loop that selects species by species. Each selection is stored on
  the filter as soon as \<open>do_CUR\<close> returns; an exception leaves the loop with the filter
  as it is at that moment.
\<close>

fun select_by_species ::
  "('g, 'h) numlib \<Rightarrow> (int \<times> matrix) list \<Rightarrow> (int \<times> int) list \<Rightarrow> int list
     \<Rightarrow> ('r, 's) CURFilter \<Rightarrow> 'g \<times> 'h
     \<Rightarrow> error option \<times> ('r, 's) CURFilter \<times> ('g \<times> 'h)"
where
  "select_by_species L X_by_sp d [] F g = (None, F, g)"
| "select_by_species L X_by_sp d (sp # sps) F g =
     (case map_of X_by_sp sp of
        None \<Rightarrow> (Some KeyError, F, g)
      | Some Xsp \<Rightarrow>
          (case map_of d sp of
             None \<Rightarrow> (Some KeyError, F, g)
           | Some k \<Rightarrow>
               (case do_CUR L Xsp k (act_on F) (is_deterministic F) (seed F) g of
                  (Inl e, g') \<Rightarrow> (Some e, F, g')
                | (Inr sel, g') \<Rightarrow>
                    (case selected_sample_ids_by_sp F of
                       None \<Rightarrow> (Some TypeError, F, g')
                     | Some by_sp \<Rightarrow>
                         select_by_species L X_by_sp d sps
                           (F\<lparr>selected_sample_ids_by_sp := Some (AList.update sp sel by_sp)\<rparr>)
                           g'))))"

text \<open>
  \<open>fit(managers)\<close>: the outcome (\<open>None\<close> for a normal return, the exception otherwise),
  the filter after the call and the state of the process after the call.
\<close>

definition fit ::
  "('g, 'h) numlib \<Rightarrow> ('m, 'r, 't, 's, 'p) collaborators \<Rightarrow> ('r, 's) CURFilter \<Rightarrow> 'm \<Rightarrow> 'g \<times> 'h
     \<Rightarrow> error option \<times> ('r, 's) CURFilter \<times> ('g \<times> 'h)"
where
  "fit L C F managers g =
     (case get_features C managers (representation F) of
        Inl e \<Rightarrow> (Some e, F, g)
      | Inr X \<Rightarrow>
          if act_on F = ''sample per species'' then
            (case Nselect F of
               Count n \<Rightarrow> (Some AttributeError, F, g)
             | BySpecies d \<Rightarrow>
                 (let sps = map fst d in
                  case get_index_mappings_sample_per_species C managers sps of
                    Inl e \<Rightarrow> (Some e, F, g)
                  | Inr (tables, indices_by_sp) \<Rightarrow>
                      (case organize_by_species X indices_by_sp sps [] of
                         Inl e \<Rightarrow> (Some e, F, g)
                       | Inr X_by_sp \<Rightarrow>
                           select_by_species L X_by_sp d sps
                             (F\<lparr> XX := Some X_by_sp,
                                 selected_sample_ids_by_sp := Some [],
                                 fps_minmax_d2_by_sp := Some [],
                                 fps_hausforff_d2_by_sp := Some [] \<rparr>)
                             g)))
          else if act_on F = ''sample'' then
            (case Nselect F of
               BySpecies d \<Rightarrow> (Some TypeError, F, g)
             | Count n \<Rightarrow>
                 (case do_CUR L X n (act_on F) (is_deterministic F) (seed F) g of
                    (Inl e, g') \<Rightarrow> (Some e, F, g')
                  | (Inr sel, g') \<Rightarrow> (None, F\<lparr>selected_sample_ids := Some sel\<rparr>, g')))
          else if act_on F = ''feature'' then
            (case Nselect F of
               BySpecies d \<Rightarrow> (Some TypeError, F, g)
             | Count n \<Rightarrow>
                 (case do_CUR L X n (act_on F) (is_deterministic F) (seed F) g of
                    (Inl e, g') \<Rightarrow> (Some e, F, g')
                  | (Inr sel, g') \<Rightarrow> (None, F\<lparr>selected_feature_ids_global := Some sel\<rparr>, g')))
          else (Some ValueError, F, g))"

subsection \<open>transform\<close>

text \<open>What \<open>transform\<close> returns, by mode; \<open>NoOutput\<close> when no branch is taken.\<close>

datatype ('s, 'p) returned =
    PseudoPoints 'p
  | SelectedIds 's
  | CoefficientSubselection "(string \<times> int list) list" "nat list" "nat list"
  | NoOutput

text \<open>Line 178: \<open>np.sort(self.selected_sample_ids[:n_select])\<close>.\<close>

definition truncate_sorted :: "nat list \<Rightarrow> int \<Rightarrow> nat list" where
  "truncate_sorted val k = sort (py_prefix val k)"

text \<open>
  Lines 167--168: the dictionary comprehension over the cached per-species selection;
  \<open>n_select[key]\<close> raises for a species that the override does not list.
\<close>

fun truncate_by_species ::
  "(int \<times> nat list) list \<Rightarrow> (int \<times> int) list \<Rightarrow> error + (int \<times> nat list) list"
where
  "truncate_by_species [] n_select = Inr []"
| "truncate_by_species ((key, val) # rest) n_select =
     (case map_of n_select key of
        None \<Rightarrow> Inl KeyError
      | Some k \<Rightarrow>
          (case truncate_by_species rest n_select of
             Inl e \<Rightarrow> Inl e
           | Inr d \<Rightarrow> Inr ((key, truncate_sorted val k) # d)))"

text \<open>Lines 169--175: remapping of the per-species selection, then the pseudo points.\<close>

definition remap_per_species ::
  "('m, 'r, 't, 's, 'p) collaborators \<Rightarrow> ('r, 's) CURFilter \<Rightarrow> 'm
     \<Rightarrow> (int \<times> nat list) list \<Rightarrow> 't \<Rightarrow> int list
     \<Rightarrow> (error + ('s, 'p) returned) \<times> ('r, 's) CURFilter"
where
  "remap_per_species C F managers selected_ids_by_sp tables sps =
     (case convert_selected_global_index2rascal_sample_per_species C managers
             selected_ids_by_sp tables sps of
        Inl e \<Rightarrow> (Inl e, F)
      | Inr sel \<Rightarrow>
          (case sparse_points C (representation F) managers sel of
             Inl e \<Rightarrow> (Inl e, F\<lparr>selected_ids := Some (Remapped sel)\<rparr>)
           | Inr pseudo_points \<Rightarrow>
               (Inr (PseudoPoints pseudo_points), F\<lparr>selected_ids := Some (Remapped sel)\<rparr>)))"

text \<open>Lines 179--182: remapping of the global selection.\<close>

definition remap_sample ::
  "('m, 'r, 't, 's, 'p) collaborators \<Rightarrow> ('r, 's) CURFilter \<Rightarrow> 'm \<Rightarrow> nat list
     \<Rightarrow> (error + ('s, 'p) returned) \<times> ('r, 's) CURFilter"
where
  "remap_sample C F managers selected_ids_global =
     (case get_index_mappings_sample C managers of
        Inl e \<Rightarrow> (Inl e, F)
      | Inr tables \<Rightarrow>
          (case convert_selected_global_index2rascal_sample C managers
                  selected_ids_global tables of
             Inl e \<Rightarrow> (Inl e, F)
           | Inr sel \<Rightarrow> (Inr (SelectedIds sel), F\<lparr>selected_ids := Some (Remapped sel)\<rparr>)))"

text \<open>Lines 197--198: one coefficient per key is appended to that key's list.\<close>

fun append_coefficients ::
  "(string \<times> int) list \<Rightarrow> (string \<times> int list) list \<Rightarrow> error + (string \<times> int list) list"
where
  "append_coefficients coef_idx [] = Inr []"
| "append_coefficients coef_idx ((key, vals) # rest) =
     (case map_of coef_idx key of
        None \<Rightarrow> Inl KeyError
      | Some c \<Rightarrow>
          (case append_coefficients coef_idx rest of
             Inl e \<Rightarrow> Inl e
           | Inr rest' \<Rightarrow> Inr ((key, vals @ [c]) # rest')))"

text \<open>Lines 195--198: the loop over the selected feature indices.\<close>

fun collect_coefficients ::
  "(nat \<times> (string \<times> int) list) list \<Rightarrow> nat list \<Rightarrow> (string \<times> int list) list
     \<Rightarrow> error + (string \<times> int list) list"
where
  "collect_coefficients feat_idx2coeff_idx [] selected_features = Inr selected_features"
| "collect_coefficients feat_idx2coeff_idx (idx # rest) selected_features =
     (case map_of feat_idx2coeff_idx idx of
        None \<Rightarrow> Inl KeyError
      | Some coef_idx \<Rightarrow>
          (case append_coefficients coef_idx selected_features of
             Inl e \<Rightarrow> Inl e
           | Inr selected_features' \<Rightarrow>
               collect_coefficients feat_idx2coeff_idx rest selected_features'))"

text \<open>
  \<open>transform(managers, n_select)\<close>: the returned value or the exception, and the filter
  after the call. The argument \<open>None\<close> stands for the default \<open>n_select=None\<close>.
\<close>

definition transform ::
  "('g, 'h) numlib \<Rightarrow> ('m, 'r, 't, 's, 'p) collaborators \<Rightarrow> ('r, 's) CURFilter \<Rightarrow> 'm
     \<Rightarrow> budget option \<Rightarrow> (error + ('s, 'p) returned) \<times> ('r, 's) CURFilter"
where
  "transform L C F managers n_select_arg =
     (let n_select = (case n_select_arg of None \<Rightarrow> Nselect F | Some b \<Rightarrow> b) in
      if act_on F = ''sample per species'' then
        (case n_select of
           Count k \<Rightarrow> (Inl AttributeError, F)
         | BySpecies ns \<Rightarrow>
             (let sps = map fst ns in
              case get_index_mappings_sample_per_species C managers sps of
                Inl e \<Rightarrow> (Inl e, F)
              | Inr (tables, indices_by_sp) \<Rightarrow>
                  (case selected_sample_ids_by_sp F of
                     None \<Rightarrow> (Inl AttributeError, F)
                   | Some by_sp \<Rightarrow>
                       (case truncate_by_species by_sp ns of
                          Inl e \<Rightarrow> (Inl e, F)
                        | Inr selected_ids_by_sp \<Rightarrow>
                            remap_per_species C F managers selected_ids_by_sp tables sps))))
      else if act_on F = ''sample'' then
        (case selected_sample_ids F of
           None \<Rightarrow> (Inl TypeError, F)
         | Some cached \<Rightarrow>
             (case n_select of
                BySpecies ns \<Rightarrow> (Inl TypeError, F)
              | Count k \<Rightarrow> remap_sample C F managers (truncate_sorted cached k)))
      else if act_on F = ''feature'' then
        (case get_feature_index_mapping C (representation F) managers of
           Inl e \<Rightarrow> (Inl e, F)
         | Inr feat_idx2coeff_idx \<Rightarrow>
             (case map_of feat_idx2coeff_idx 0 of
                None \<Rightarrow> (Inl KeyError, F)
              | Some first \<Rightarrow>
                  (case selected_feature_ids_global F of
                     None \<Rightarrow> (Inl TypeError, F)
                   | Some cached \<Rightarrow>
                       (case n_select of
                          BySpecies ns \<Rightarrow> (Inl TypeError, F)
                        | Count k \<Rightarrow>
                            (let selected_ids_sorting =
                                   argsort L (map real (py_prefix cached k))
                             in if \<not> list_all (\<lambda>i. i < length cached) selected_ids_sorting
                                then (Inl IndexError, F)
                                else
                                  (let sel = map (\<lambda>i. cached ! i) selected_ids_sorting;
                                       F' = F\<lparr>selected_ids := Some (FeatureIds sel)\<rparr>
                                   in case collect_coefficients feat_idx2coeff_idx sel
                                             (map (\<lambda>key. (key, [])) (map fst first)) of
                                        Inl e \<Rightarrow> (Inl e, F')
                                      | Inr selected_features \<Rightarrow>
                                          (Inr (CoefficientSubselection selected_features sel
                                                  selected_ids_sorting), F')))))))
      else (Inr NoOutput, F))"

text \<open>A sequence of \<open>transform\<close> calls on one filter; the filter after the last call.\<close>

fun transforms ::
  "('g, 'h) numlib \<Rightarrow> ('m, 'r, 't, 's, 'p) collaborators \<Rightarrow> ('r, 's) CURFilter
     \<Rightarrow> ('m \<times> budget option) list \<Rightarrow> ('r, 's) CURFilter"
where
  "transforms L C F [] = F"
| "transforms L C F ((managers, n_select) # calls) =
     transforms L C (snd (transform L C F managers n_select)) calls"

text \<open>\<open>fit_transform(managers)\<close>: \<open>fit\<close>, then \<open>transform\<close> with the default budget.\<close>

definition fit_transform ::
  "('g, 'h) numlib \<Rightarrow> ('m, 'r, 't, 's, 'p) collaborators \<Rightarrow> ('r, 's) CURFilter \<Rightarrow> 'm \<Rightarrow> 'g \<times> 'h
     \<Rightarrow> (error + ('s, 'p) returned) \<times> ('r, 's) CURFilter \<times> ('g \<times> 'h)"
where
  "fit_transform L C F managers g =
     (case fit L C F managers g of
        (Some e, F', g') \<Rightarrow> (Inl e, F', g')
      | (None, F', g') \<Rightarrow>
          (case transform L C F' managers None of (r, F'') \<Rightarrow> (r, F'', g')))"

subsection \<open>The truncation of transform as the specification words it\<close>

text \<open>
  For each group, the ascending sort of the first \<open>k\<close> elements of the group's cached
  selection, \<open>k\<close> being the group's override budget.
\<close>

definition group_budget :: "(int \<times> int) list \<Rightarrow> int \<Rightarrow> int" where
  "group_budget n_select sp = (case map_of n_select sp of None \<Rightarrow> 0 | Some k \<Rightarrow> k)"

definition sorted_prefixes ::
  "(int \<times> nat list) list \<Rightarrow> (int \<times> int) list \<Rightarrow> (int \<times> nat list) list"
where
  "sorted_prefixes by_sp n_select =
     map (\<lambda>(sp, val). (sp, sort (take (nat (group_budget n_select sp)) val))) by_sp"

text \<open>
  The override lists every cached group with a budget between 0 and the length of the
  group's cached selection.
\<close>

definition override_within :: "(int \<times> nat list) list \<Rightarrow> (int \<times> int) list \<Rightarrow> bool" where
  "override_within by_sp n_select =
     list_all (\<lambda>(sp, val). case map_of n_select sp of
                              None \<Rightarrow> False
                            | Some k \<Rightarrow> 0 \<le> k \<and> k \<le> int (length val)) by_sp"

text \<open>The override lists every cached group with a budget that is not negative.\<close>

definition override_covers :: "(int \<times> nat list) list \<Rightarrow> (int \<times> int) list \<Rightarrow> bool" where
  "override_covers by_sp n_select =
     list_all (\<lambda>(sp, val). case map_of n_select sp of
                              None \<Rightarrow> False
                            | Some k \<Rightarrow> 0 \<le> k) by_sp"

text \<open>A filter with the record of its last \<open>transform\<close> selection blanked.\<close>

definition without_ids :: "('r, 's) CURFilter \<Rightarrow> ('r, 's) CURFilter" where
  "without_ids F = F\<lparr>selected_ids := None\<rparr>"

subsection \<open>Instances for the examples\<close>

text \<open>
  A small instance of the collaborators, on which the model can be run. The structure
  collection is the feature matrix with the species of each row; the index tables are
  empty; the converters return the global indices they are given (concatenated over
  the species); each feature has one coefficient index, named \<open>n\<close>. The general
  theorems hold for every instance.
\<close>

definition demo_collab ::
  "(matrix \<times> int list, unit, unit, nat list, nat list) collaborators"
where
  "demo_collab =
     \<lparr> get_features = (\<lambda>m r. Inr (fst m)),
       get_index_mappings_sample_per_species =
         (\<lambda>m sps. Inr ((), map (\<lambda>sp. (sp, filter (\<lambda>i. snd m ! i = sp) [0..<length (snd m)])) sps)),
       convert_selected_global_index2rascal_sample_per_species =
         (\<lambda>m by_sp t sps. Inr (concat (map snd by_sp))),
       get_index_mappings_sample = (\<lambda>m. Inr ()),
       convert_selected_global_index2rascal_sample = (\<lambda>m sel t. Inr sel),
       sparse_points = (\<lambda>r m sel. Inr sel),
       get_feature_index_mapping =
         (\<lambda>r m. Inr (map (\<lambda>j. (j, [(''n'', int j)])) [0..<n_cols (fst m)])) \<rparr>"

text \<open>A filter in mode \<open>'sample'\<close> whose cached selection is \<open>[4, 1, 3]\<close>.\<close>

definition demo_filter :: "(unit, nat list) CURFilter" where
  "demo_filter =
     \<lparr> representation = (), Nselect = Count 3, act_on = ''sample'',
       is_deterministic = PyTrue, seed = 10, selected_ids = None,
       selected_sample_ids = Some [4, 1, 3], selected_sample_ids_by_sp = None,
       selected_feature_ids_global = None, XX = None, fps_minmax_d2_by_sp = None,
       fps_hausforff_d2_by_sp = None \<rparr>"


text \<open>
  A filter in mode \<open>'sample per species'\<close> whose cached selection is \<open>[2, 0]\<close> for
  species 1 and \<open>[1]\<close> for species 6.
\<close>

definition demo_filter_by_species :: "(unit, nat list) CURFilter" where
  "demo_filter_by_species =
     \<lparr> representation = (), Nselect = BySpecies [(1, 2), (6, 1)],
       act_on = ''sample per species'', is_deterministic = PyTrue, seed = 10,
       selected_ids = None, selected_sample_ids = None,
       selected_sample_ids_by_sp = Some [(1, [2, 0]), (6, [1])],
       selected_feature_ids_global = None, XX = None, fps_minmax_d2_by_sp = None,
       fps_hausforff_d2_by_sp = None \<rparr>"


subsection \<open>Budgets that svds accepts\<close>

text \<open>
  For species \<open>sp\<close>: the species has a sub-matrix and a budget, and \<open>svds\<close> accepts the
  budget as the rank for that sub-matrix.
\<close>

definition accepted :: "(int \<times> matrix) list \<Rightarrow> (int \<times> int) list \<Rightarrow> int \<Rightarrow> bool" where
  "accepted X_by_sp d sp =
     (case map_of X_by_sp sp of
        None \<Rightarrow> False
      | Some Xsp \<Rightarrow>
          (case map_of d sp of
             None \<Rightarrow> False
           | Some k \<Rightarrow> 1 \<le> k \<and> k < int (min (n_rows Xsp) (n_cols Xsp))))"

text \<open>The attributes that the per-species loop of \<open>fit\<close> does not assign.\<close>

definition without_by_sp :: "('r, 's) CURFilter \<Rightarrow> ('r, 's) CURFilter" where
  "without_by_sp F = F\<lparr>selected_sample_ids_by_sp := None\<rparr>"

text \<open>
  Unfitted filters in mode \<open>'sample per species'\<close>: a deterministic one that asks for
  one sample of species 1 and two of species 6, and a stochastic one that asks for one
  sample of each.
\<close>

definition demo_unfitted :: "(unit, nat list) CURFilter" where
  "demo_unfitted =
     \<lparr> representation = (), Nselect = BySpecies [(1, 1), (6, 2)],
       act_on = ''sample per species'', is_deterministic = PyTrue, seed = 10,
       selected_ids = None, selected_sample_ids = None, selected_sample_ids_by_sp = None,
       selected_feature_ids_global = None, XX = None, fps_minmax_d2_by_sp = None,
       fps_hausforff_d2_by_sp = None \<rparr>"



section \<open>Properties of do_CUR\<close>

subsection \<open>Helper facts\<close>

lemma rand_length: "length (fst (rand L n g)) = n"
proof (induction n arbitrary: g)
  case 0
  show ?case by simp
next
  case (Suc n)
  obtain u g' where a: "rng_next L g = (u, g')" by (cases "rng_next L g")
  obtain us g'' where b: "rand L n g' = (us, g'')" by (cases "rand L n g'")
  have "length us = n" using Suc[of g'] b by simp
  then show ?case using a b by simp
qed

lemma rand_numeral:
  "rand L (numeral k) g =
     (case rng_next L g of (u, g') \<Rightarrow>
        (case rand L (pred_numeral k) g' of (us, g'') \<Rightarrow> (u # us, g'')))"
  by (simp add: numeral_eq_Suc)

lemma perm_of_sort:
  assumes "sort p = [0..<n]"
  shows "distinct p" "set p = {0..<n}" "length p = n"
proof -
  have "distinct (sort p)" using assms by simp
  then show "distinct p" by simp
  have "set (sort p) = {0..<n}" using assms by simp
  then show "set p = {0..<n}" by simp
  have "length (sort p) = n" using assms by simp
  then show "length p = n" by simp
qed

lemma n_cols_of_rows:
  assumes "list_all (\<lambda>r. length r = c) M" "M \<noteq> []"
  shows "n_cols M = c"
  using assms by (cases M) (auto simp: n_cols_def)

lemma leverage_weights_length:
  assumes "factors_shape_ok X k U VT" "0 < k"
    and "leverage_weights a U VT = Some wt"
  shows "length wt = axis_size a X"
proof -
  have U: "length U = n_rows X"
    and VT: "length VT = k" "list_all (\<lambda>r. length r = n_cols X) VT"
    using assms(1) by (auto simp: factors_shape_ok_def)
  have "VT \<noteq> []" using VT(1) assms(2) by auto
  then have "n_cols VT = n_cols X" using VT(2) by (rule n_cols_of_rows[rotated])
  then show ?thesis
    using assms(3) U
    by (auto simp: leverage_weights_def axis_size_def mean_square_rows_def
        mean_square_cols_def split: if_splits)
qed

lemma svds_accepts:
  assumes "1 \<le> Nsel" "Nsel < int (min (n_rows X) (n_cols X))"
  shows "svds L X Nsel w = svd_factors L X (nat Nsel) w"
  using assms by (simp add: svds_def)

lemma svds_rejects:
  assumes "Nsel \<le> 0 \<or> int (min (n_rows X) (n_cols X)) \<le> Nsel"
  shows "svds L X Nsel w = (Inl ValueError, w)"
  using assms by (auto simp: svds_def)

lemma svds_positive:
  assumes "svds L X Nsel w = (Inr f, w1)"
  shows "0 < Nsel"
  using assms by (auto simp: svds_def split: if_splits)

lemma random_seed_accepts:
  assumes "0 \<le> s" "s < 2 ^ 32"
  shows "random_seed L s = Inr (rng_seed L s)"
  using assms by (simp add: random_seed_def)

lemma do_CUR_deterministic_eq:
  assumes "svds L X Nsel w = (Inr (U, VT), w1)" "leverage_weights a U VT = Some wt"
  shows "do_CUR L X Nsel a PyTrue s w =
           (Inr (take (nat Nsel) (argsort L (map uminus wt))), w1)"
proof -
  have "0 < Nsel" using assms(1) by (rule svds_positive)
  then show ?thesis using assms by (simp add: do_CUR_def py_prefix_def)
qed

lemma do_CUR_stochastic_eq:
  assumes "svds L X Nsel w = (Inr (U, VT), w1)" "leverage_weights a U VT = Some wt"
    and "0 \<le> s" "s < 2 ^ 32"
  shows "do_CUR L X Nsel a PyFalse s w =
           (Inr (take (nat Nsel)
                  (argsort L (map2 (-) (fst (rand L (length wt) (rng_seed L s))) wt))),
            (snd (rand L (length wt) (rng_seed L s)), snd w1))"
proof -
  have "0 < Nsel" using assms(1) by (rule svds_positive)
  then show ?thesis
    using assms
    by (simp add: do_CUR_def py_prefix_def random_seed_accepts split: prod.splits)
qed

lemma do_CUR_rejects:
  assumes "svds L X Nsel w = (Inl e, w1)"
  shows "do_CUR L X Nsel a det s w = (Inl e, w1)"
  using assms by (simp add: do_CUR_def)

lemma do_CUR_bad_seed:
  assumes "s < 0 \<or> 2 ^ 32 \<le> s"
  shows "\<exists>e. fst (do_CUR L X Nsel a PyFalse s w) = Inl e"
proof -
  obtain r w1 where sv: "svds L X Nsel w = (r, w1)" by (cases "svds L X Nsel w")
  show ?thesis
  proof (cases r)
    case (Inl e)
    then show ?thesis using sv by (simp add: do_CUR_def)
  next
    case (Inr f)
    then show ?thesis
      using sv assms by (cases f) (auto simp: do_CUR_def random_seed_def)
  qed
qed

lemma take_argsort_props:
  assumes "argsort_ok L keys" "k \<le> length keys"
  shows "length (take k (argsort L keys)) = k" "distinct (take k (argsort L keys))"
    "set (take k (argsort L keys)) \<subseteq> {0..<length keys}"
proof -
  have s: "sort (argsort L keys) = [0..<length keys]"
    using assms(1) by (simp add: argsort_ok_def)
  note p = perm_of_sort[OF s]
  show "length (take k (argsort L keys)) = k" using p(3) assms(2) by simp
  show "distinct (take k (argsort L keys))" using p(1) by simp
  show "set (take k (argsort L keys)) \<subseteq> {0..<length keys}"
    using p(2) set_take_subset[of k "argsort L keys"] by simp
qed

lemma axis_size_bound: "min (n_rows X) (n_cols X) \<le> axis_size a X"
  by (simp add: axis_size_def)

lemma stable_argsort_ok:
  assumes "argsort L = stable_argsort"
  shows "argsort_ok L keys"
proof -
  let ?f = "\<lambda>i. keys ! i"
  have "mset [0..<length keys] = mset (sort_key ?f [0..<length keys])" by simp
  then have "sort (sort_key ?f [0..<length keys]) = [0..<length keys]"
    by (intro properties_for_sort) simp_all
  moreover have "sorted (map ?f (sort_key ?f [0..<length keys]))" by (rule sorted_sort_key)
  ultimately show ?thesis using assms by (simp add: argsort_ok_def stable_argsort_def)
qed

lemma demo_lib_argsort_ok: "argsort_ok demo_lib keys"
  by (rule stable_argsort_ok) (simp add: demo_lib_def)

lemma mean_square_rows_nth:
  "i < length U \<Longrightarrow> mean_square_rows U ! i = candidate_weight Sample U VT i"
  by (simp add: mean_square_rows_def candidate_weight_def)

lemma mean_square_cols_nth:
  "i < n_cols VT \<Longrightarrow> mean_square_cols VT ! i = candidate_weight Feature U VT i"
  by (simp add: mean_square_cols_def candidate_weight_def)

lemma keys_as_candidates:
  assumes "length us = n" "length wt = n"
  shows "map2 (-) us wt = map (\<lambda>i. us ! i - wt ! i) [0..<n]"
  using assms by (intro nth_equalityI) simp_all

text \<open>The library instance at the matrices used in the examples.\<close>

lemma demo_rng_next:
  "rng_next demo_lib g = (real ((5 * g + 3) mod 16) / 16, (5 * g + 3) mod 16)"
  by (simp add: demo_lib_def)

lemma demo_rng_seed: "rng_seed demo_lib s = nat (s mod 16)"
  by (simp add: demo_lib_def)

lemma demo_argsort: "argsort demo_lib = stable_argsort"
  by (simp add: demo_lib_def)

lemma demo_rand_3: "rand demo_lib 3 (rng_seed demo_lib 10) = ([5 / 16, 12 / 16, 15 / 16], 15)"
  by (simp add: rand_numeral demo_rng_next demo_rng_seed)


lemma demo_seed_10: "(0::int) \<le> 10" "(10::int) < 2 ^ 32"
  by simp_all

lemma demo_budget:
  "(1::int) \<le> 1"
  "1 < int (min (n_rows [[1, 2], [3, 4], [5, 6]]) (n_cols [[1, 2], [3, 4], [5, 6]]))"
  by (simp_all add: n_rows_def n_cols_def)

lemma demo_factors:
  "svd_factors demo_lib [[1, 2], [3, 4], [5, 6]] (nat 1) (g, 0) =
     (Inr ([[1], [3], [5]], [[1, 2]]), (g, Suc 0))"
  by (simp add: demo_lib_def n_rows_def n_cols_def)

lemma demo_svds:
  "fst (svds demo_lib [[1, 2], [3, 4], [5, 6]] 1 (g, h)) =
   fst (svds demo_lib [[1, 2], [3, 4], [5, 6]] 1 (g', h))"
  by (simp add: svds_def demo_lib_def n_rows_def n_cols_def)

lemma demo_svds_first:
  "svds demo_lib [[1, 2], [3, 4], [5, 6]] 1 (g, 0) = (Inr ([[1], [3], [5]], [[1, 2]]), (g, 1))"
  by (simp add: svds_def demo_lib_def n_rows_def n_cols_def)

lemma demo_shape: "factors_shape_ok [[1, 2], [3, 4], [5, 6]] (nat 1) [[1], [3], [5]] [[1, 2]]"
  by (simp add: factors_shape_ok_def n_rows_def n_cols_def)

lemma demo_weights:
  "leverage_weights ''sample'' [[1], [3], [5]] [[1, 2]] = Some [1, 9, 25]"
  by (simp add: leverage_weights_def mean_square_rows_def)

lemma demo_sorted_first:
  "stable_argsort (map2 (-) [5 / 16, 12 / 16, 15 / 16] [1, 9, 25]) = [2, 1, 0]"
  by (simp add: stable_argsort_def upt_rec)

lemma demo_stochastic_first:
  "do_CUR demo_lib [[1, 2], [3, 4], [5, 6]] 1 ''sample'' PyFalse 10 (g, 0) = (Inr [2], (15, 1))"
proof -
  have l: "length [1, 9, 25 :: real] = 3" by simp
  have "do_CUR demo_lib [[1, 2], [3, 4], [5, 6]] 1 ''sample'' PyFalse 10 (g, 0) =
          (Inr (take (nat 1) (stable_argsort (map2 (-) [5 / 16, 12 / 16, 15 / 16] [1, 9, 25]))),
           (15, 1))"
    by (simp only: do_CUR_stochastic_eq[OF demo_svds_first demo_weights demo_seed_10] l
        demo_rand_3 demo_argsort fst_conv snd_conv)
  then show ?thesis unfolding demo_sorted_first by simp
qed

text \<open>
  The matrix \<open>[[1, 0], [0, 1], [0, 0]]\<close> has the singular value 1 twice: both of its
  columns are left singular vectors for the largest singular value, and two calls of the
  solver return one and the other.
\<close>

lemma demo_unit_svds_first:
  "svds demo_lib [[1, 0], [0, 1], [0, 0]] 1 (g, 0) = (Inr ([[1], [0], [0]], [[1, 0]]), (g, 1))"
  by (simp add: svds_def demo_lib_def n_rows_def n_cols_def)

lemma demo_unit_svds_second:
  "svds demo_lib [[1, 0], [0, 1], [0, 0]] 1 (g, 1) = (Inr ([[0], [1], [0]], [[0, 1]]), (g, 2))"
  by (simp add: svds_def demo_lib_def n_rows_def n_cols_def)

lemma demo_unit_weights_first:
  "leverage_weights ''sample'' [[1], [0], [0]] [[1, 0]] = Some [1, 0, 0]"
  by (simp add: leverage_weights_def mean_square_rows_def)

lemma demo_unit_weights_second:
  "leverage_weights ''sample'' [[0], [1], [0]] [[0, 1]] = Some [0, 1, 0]"
  by (simp add: leverage_weights_def mean_square_rows_def)

lemma demo_unit_sorted_first:
  "stable_argsort (map2 (-) [5 / 16, 12 / 16, 15 / 16] [1, 0, 0]) = [0, 1, 2]"
  by (simp add: stable_argsort_def upt_rec)

lemma demo_unit_sorted_second:
  "stable_argsort (map2 (-) [5 / 16, 12 / 16, 15 / 16] [0, 1, 0]) = [1, 0, 2]"
  by (simp add: stable_argsort_def upt_rec)

lemma demo_unit_stochastic_first:
  "do_CUR demo_lib [[1, 0], [0, 1], [0, 0]] 1 ''sample'' PyFalse 10 (g, 0) = (Inr [0], (15, 1))"
proof -
  have l: "length [1, 0, 0 :: real] = 3" by simp
  have "do_CUR demo_lib [[1, 0], [0, 1], [0, 0]] 1 ''sample'' PyFalse 10 (g, 0) =
          (Inr (take (nat 1) (stable_argsort (map2 (-) [5 / 16, 12 / 16, 15 / 16] [1, 0, 0]))),
           (15, 1))"
    by (simp only: do_CUR_stochastic_eq[OF demo_unit_svds_first demo_unit_weights_first
          demo_seed_10] l demo_rand_3 demo_argsort fst_conv snd_conv)
  then show ?thesis unfolding demo_unit_sorted_first by simp
qed

lemma demo_unit_stochastic_second:
  "do_CUR demo_lib [[1, 0], [0, 1], [0, 0]] 1 ''sample'' PyFalse 10 (g, 1) = (Inr [1], (15, 2))"
proof -
  have l: "length [0, 1, 0 :: real] = 3" by simp
  have "do_CUR demo_lib [[1, 0], [0, 1], [0, 0]] 1 ''sample'' PyFalse 10 (g, 1) =
          (Inr (take (nat 1) (stable_argsort (map2 (-) [5 / 16, 12 / 16, 15 / 16] [0, 1, 0]))),
           (15, 2))"
    by (simp only: do_CUR_stochastic_eq[OF demo_unit_svds_second demo_unit_weights_second
          demo_seed_10] l demo_rand_3 demo_argsort fst_conv snd_conv)
  then show ?thesis unfolding demo_unit_sorted_second by simp
qed

subsection \<open>Claims about do_CUR\<close>

text \<open>
  C1, as the code has it. For every feature matrix \<open>X\<close> and every budget \<open>Nsel\<close> with
  \<open>1 \<le> Nsel < min(X's dimensions)\<close>, whenever \<open>svds\<close> returns factors and, in
  stochastic mode, the seed lies in the range that \<open>np.random.seed\<close> accepts,
  \<open>do_CUR\<close> returns exactly \<open>Nsel\<close> pairwise distinct indices, each a valid index
  into the selected axis of \<open>X\<close> (a row index for a sample axis, a column index for a
  feature axis). The library is any library whose \<open>svds\<close> returns factors of the
  documented shapes and whose \<open>argsort\<close> returns a sorting permutation.
\<close>

theorem do_CUR_budget_distinct_valid:
  assumes budget: "1 \<le> Nsel" "Nsel < int (min (n_rows X) (n_cols X))"
    and axis: "py_in ''sample'' a \<or> py_in ''feature'' a"
    and policy: "det = PyTrue \<or> (det = PyFalse \<and> 0 \<le> s \<and> s < 2 ^ 32)"
    and factors: "svd_factors L X (nat Nsel) w = (Inr (U, VT), w1)"
    and shape: "factors_shape_ok X (nat Nsel) U VT"
    and sorts: "\<forall>keys. argsort_ok L keys"
  shows "\<exists>sel. fst (do_CUR L X Nsel a det s w) = Inr sel \<and>
           length sel = nat Nsel \<and> distinct sel \<and>
           (\<forall>i\<in>set sel. i < axis_size a X)"
proof -
  have sv: "svds L X Nsel w = (Inr (U, VT), w1)"
    using svds_accepts[OF budget, of L w] factors by simp
  have "\<exists>wt. leverage_weights a U VT = Some wt"
    using axis by (cases "py_in ''sample'' a") (simp_all add: leverage_weights_def)
  then obtain wt where wt: "leverage_weights a U VT = Some wt" ..
  have lw: "length wt = axis_size a X"
    using leverage_weights_length[OF shape _ wt] budget by simp
  have k: "nat Nsel \<le> length wt"
    using budget axis_size_bound[of X a] lw by linarith
  show ?thesis
  proof (cases "det = PyTrue")
    case True
    let ?keys = "map uminus wt"
    have ok: "argsort_ok L ?keys" using sorts by blast
    have k': "nat Nsel \<le> length ?keys" using k by simp
    note t = take_argsort_props[OF ok k']
    show ?thesis
      using True do_CUR_deterministic_eq[OF sv wt, of s] t lw by auto
  next
    case False
    then have st: "det = PyFalse" and seed_ok: "0 \<le> s" "s < 2 ^ 32" using policy by simp_all
    let ?keys = "map2 (-) (fst (rand L (length wt) (rng_seed L s))) wt"
    have ok: "argsort_ok L ?keys" using sorts by blast
    have k': "nat Nsel \<le> length ?keys" using k by (simp add: rand_length)
    note t = take_argsort_props[OF ok k']
    have "length ?keys = length wt" by (simp add: rand_length)
    then show ?thesis
      using st do_CUR_stochastic_eq[OF sv wt seed_ok] t lw by auto
  qed
qed

theorem do_CUR_budget_distinct_valid_witness:
  "\<exists>sel. fst (do_CUR demo_lib [[1, 2], [3, 4], [5, 6]] 1 ''sample'' PyFalse 10 (0, 0)) = Inr sel \<and>
         length sel = 1 \<and> distinct sel \<and> list_all (\<lambda>i. i < 3) sel"
proof -
  have axis: "py_in ''sample'' ''sample'' \<or> py_in ''feature'' ''sample''" by simp
  have policy: "PyFalse = PyTrue \<or> (PyFalse = PyFalse \<and> (0::int) \<le> 10 \<and> (10::int) < 2 ^ 32)"
    by simp
  have sorts: "\<forall>keys. argsort_ok demo_lib keys" by (simp add: demo_lib_argsort_ok)
  from do_CUR_budget_distinct_valid[OF demo_budget axis policy demo_factors demo_shape sorts,
      of 0]
  show ?thesis by (simp add: axis_size_def n_rows_def list_all_iff numeral_3_eq_3)
qed

text \<open>
  C1 as stated fails, with the budget in range: on a matrix of zeros the solver does
  not converge and \<open>svds\<close> raises \<open>ArpackError\<close>; with the seed \<open>-1\<close> the stochastic
  branch raises the \<open>ValueError\<close> of \<open>np.random.seed\<close>. No index is returned in
  either case.
\<close>

theorem do_CUR_raises_counterexample:
  "fst (do_CUR demo_lib [[0, 0], [0, 0], [0, 0]] 1 ''sample'' PyTrue 10 (0, 0)) = Inl ArpackError \<and>
   fst (do_CUR demo_lib [[1, 2], [3, 4], [5, 6]] 1 ''sample'' PyFalse (- 1) (0, 0)) = Inl ValueError"
proof -
  have "svds demo_lib [[0, 0], [0, 0], [0, 0]] 1 (0, 0) = (Inl ArpackError, (0, 1))"
    by (simp add: svds_def demo_lib_def n_rows_def n_cols_def)
  then have a: "fst (do_CUR demo_lib [[0, 0], [0, 0], [0, 0]] 1 ''sample'' PyTrue 10 (0, 0))
      = Inl ArpackError"
    by (simp add: do_CUR_rejects)
  have b: "fst (do_CUR demo_lib [[1, 2], [3, 4], [5, 6]] 1 ''sample'' PyFalse (- 1) (0, 0))
      = Inl ValueError"
    by (simp add: do_CUR_def demo_svds_first random_seed_def)
  from a b show ?thesis ..
qed

text \<open>
  C2, as the code has it. Two calls of the stochastic selection with the same matrix,
  budget, axis and seed reseed the generator and draw the same variates; they return
  the same index sequence (or the same exception) whenever their two \<open>svds\<close> calls
  return the same factors. The result is a function of the factors that \<open>svds\<close>
  returns, the budget, the axis and the seed.
\<close>

theorem do_CUR_seeded_reproducible:
  assumes "fst (svds L X Nsel w1) = fst (svds L X Nsel w2)"
  shows "fst (do_CUR L X Nsel a PyFalse s w1) = fst (do_CUR L X Nsel a PyFalse s w2)"
proof -
  obtain r v1 where 1: "svds L X Nsel w1 = (r, v1)" by (cases "svds L X Nsel w1")
  obtain r' v2 where 2: "svds L X Nsel w2 = (r', v2)" by (cases "svds L X Nsel w2")
  have "r' = r" using assms 1 2 by simp
  then show ?thesis
    using 1 2
    by (simp add: do_CUR_def split: sum.splits prod.splits option.splits)
qed

theorem do_CUR_seeded_reproducible_witness:
  "fst (do_CUR demo_lib [[1, 2], [3, 4], [5, 6]] 1 ''sample'' PyFalse 10 (0, 0)) =
   fst (do_CUR demo_lib [[1, 2], [3, 4], [5, 6]] 1 ''sample'' PyFalse 10 (7, 0))"
proof -
  have "fst (svds demo_lib [[1, 2], [3, 4], [5, 6]] 1 (0, 0)) =
        fst (svds demo_lib [[1, 2], [3, 4], [5, 6]] 1 (7, 0))"
    by (rule demo_svds)
  then show ?thesis by (rule do_CUR_seeded_reproducible)
qed

text \<open>
  C2 as stated fails: \<open>svds\<close> is called without a starting vector, and its factors
  can differ between two calls on the same matrix. The matrix \<open>[[1, 0], [0, 1], [0, 0]]\<close>
  has the singular value 1 twice, so its leading left singular vector is not determined:
  a call for which the solver returns the first column selects row 0, a call for which
  it returns the second column selects row 1, with the same matrix, budget, axis and
  seed.
\<close>

theorem do_CUR_not_reproducible_counterexample:
  "fst (do_CUR demo_lib [[1, 0], [0, 1], [0, 0]] 1 ''sample'' PyFalse 10 (0, 0)) = Inr [0] \<and>
   fst (do_CUR demo_lib [[1, 0], [0, 1], [0, 0]] 1 ''sample'' PyFalse 10 (0, 1)) = Inr [1]"
  using demo_unit_stochastic_first[of 0] demo_unit_stochastic_second[of 0] by simp

text \<open>
  C3. In stochastic mode, for a seed that \<open>np.random.seed\<close> accepts, the returned
  selection equals the reference computation \<open>reference_stochastic_selection\<close>: seed
  the generator, draw one uniform variate per candidate, order the candidates ascending
  by \<open>uniform - weight\<close> with the weight of a candidate the mean of the squared entries
  of its row of \<open>U\<close> (sample axis) or its column of \<open>VT\<close> (feature axis) from the
  rank-\<open>budget\<close> factorisation, and keep the first \<open>budget\<close> candidates; when the
  factorisation raises, both raise the same exception.
\<close>

theorem do_CUR_stochastic_refines_reference:
  assumes budget: "1 \<le> Nsel" "Nsel < int (min (n_rows X) (n_cols X))"
    and seed_ok: "0 \<le> s" "s < 2 ^ 32"
    and shape: "svd_shape_ok L X (nat Nsel) w"
  shows "fst (do_CUR L X Nsel (axis_name ax) PyFalse s w) =
           reference_stochastic_selection L X (nat Nsel) ax s w"
proof -
  obtain r w1 where f: "svd_factors L X (nat Nsel) w = (r, w1)"
    by (cases "svd_factors L X (nat Nsel) w")
  have sv: "svds L X Nsel w = (r, w1)" using svds_accepts[OF budget, of L w] f by simp
  show ?thesis
  proof (cases r)
    case (Inl e)
    then show ?thesis
      using f do_CUR_rejects[of L X Nsel w e w1] sv
      by (simp add: reference_stochastic_selection_def)
  next
    case (Inr uv)
    obtain U VT where uv: "uv = (U, VT)" by (cases uv)
    have sv': "svds L X Nsel w = (Inr (U, VT), w1)" using sv Inr uv by simp
    have "factors_shape_ok X (nat Nsel) U VT"
      using shape f Inr uv by (simp add: svd_shape_ok_def)
    then have U: "length U = n_rows X"
      and VT: "length VT = nat Nsel" "list_all (\<lambda>r. length r = n_cols X) VT"
      by (auto simp: factors_shape_ok_def)
    have "VT \<noteq> []" using VT(1) budget by auto
    then have nc: "n_cols VT = n_cols X" using VT(2) by (rule n_cols_of_rows[rotated])
    show ?thesis
    proof (cases ax)
      case Sample
      let ?w = "mean_square_rows U"
      let ?us = "fst (rand L (n_rows X) (rng_seed L s))"
      have wt: "leverage_weights (axis_name ax) U VT = Some ?w"
        using Sample by (simp add: leverage_weights_def axis_name_def)
      have lw: "length ?w = n_rows X" using U by (simp add: mean_square_rows_def)
      have "map2 (-) ?us ?w = map (\<lambda>i. ?us ! i - ?w ! i) [0..<n_rows X]"
        by (rule keys_as_candidates) (simp_all add: rand_length lw)
      also have "\<dots> = map (\<lambda>i. ?us ! i - candidate_weight Sample U VT i) [0..<n_rows X]"
        using U by (simp add: mean_square_rows_nth)
      finally have keys: "map2 (-) ?us ?w =
          map (\<lambda>i. ?us ! i - candidate_weight Sample U VT i) [0..<n_rows X]" .
      show ?thesis
        using do_CUR_stochastic_eq[OF sv' wt seed_ok] keys Sample f Inr uv lw
        by (simp add: reference_stochastic_selection_def Let_def)
    next
      case Feature
      let ?w = "mean_square_cols VT"
      let ?us = "fst (rand L (n_cols X) (rng_seed L s))"
      have wt: "leverage_weights (axis_name ax) U VT = Some ?w"
        using Feature by (simp add: leverage_weights_def axis_name_def)
      have lw: "length ?w = n_cols X" using nc by (simp add: mean_square_cols_def)
      have "map2 (-) ?us ?w = map (\<lambda>i. ?us ! i - ?w ! i) [0..<n_cols X]"
        by (rule keys_as_candidates) (simp_all add: rand_length lw)
      also have "\<dots> = map (\<lambda>i. ?us ! i - candidate_weight Feature U VT i) [0..<n_cols X]"
        using nc by (simp add: mean_square_cols_nth)
      finally have keys: "map2 (-) ?us ?w =
          map (\<lambda>i. ?us ! i - candidate_weight Feature U VT i) [0..<n_cols X]" .
      show ?thesis
        using do_CUR_stochastic_eq[OF sv' wt seed_ok] keys Feature f Inr uv lw
        by (simp add: reference_stochastic_selection_def Let_def)
    qed
  qed
qed

theorem do_CUR_stochastic_refines_reference_witness:
  "fst (do_CUR demo_lib [[1, 2], [3, 4], [5, 6]] 1 (axis_name Sample) PyFalse 10 (0, 0)) =
     reference_stochastic_selection demo_lib [[1, 2], [3, 4], [5, 6]] (nat 1) Sample 10 (0, 0)"
proof -
  have "svd_shape_ok demo_lib [[1, 2], [3, 4], [5, 6]] (nat 1) (0, 0)"
    unfolding svd_shape_ok_def demo_factors fst_conv using demo_shape by simp
  then show ?thesis
    by (rule do_CUR_stochastic_refines_reference[OF demo_budget demo_seed_10])
qed

text \<open>
  C6, as the code has it. A stochastic selection reseeds the process-wide generator
  with \<open>seed\<close> and takes one draw per candidate from it. The draws, and with them the
  selection for given factors, do not depend on the state the generator was in before
  the call; the call leaves the process-wide generator in the state reached by seeding
  with \<open>seed\<close> and drawing once per candidate, whatever its state was before. The seed
  is one that \<open>np.random.seed\<close> accepts.
\<close>

theorem do_CUR_stochastic_reseeds_process_generator:
  assumes "svds L X Nsel w = (Inr (U, VT), w1)" and "leverage_weights a U VT = Some wt"
    and "0 \<le> s" "s < 2 ^ 32"
  shows "do_CUR L X Nsel a PyFalse s w =
           (Inr (take (nat Nsel)
                  (argsort L (map2 (-) (fst (rand L (length wt) (rng_seed L s))) wt))),
            (snd (rand L (length wt) (rng_seed L s)), snd w1))"
  using assms by (rule do_CUR_stochastic_eq)

theorem do_CUR_stochastic_reseeds_process_generator_witness:
  "\<forall>g. fst (snd (do_CUR demo_lib [[1, 2], [3, 4], [5, 6]] 1 ''sample'' PyFalse 10 (g, 0))) = 15"
proof
  fix g :: nat
  have l: "length [1, 9, 25 :: real] = 3" by simp
  show "fst (snd (do_CUR demo_lib [[1, 2], [3, 4], [5, 6]] 1 ''sample'' PyFalse 10 (g, 0))) = 15"
    by (simp only: do_CUR_stochastic_reseeds_process_generator[OF demo_svds_first demo_weights
          demo_seed_10] fst_conv snd_conv l demo_rand_3)
qed

text \<open>
  C6 as stated fails: the call writes the process-wide generator. Started in state 0,
  the generator is in another state after the call, and the next draw made elsewhere in
  the process differs from the draw that would have been made without the call.
\<close>

theorem do_CUR_global_generator_counterexample:
  "fst (snd (do_CUR demo_lib [[1, 2], [3, 4], [5, 6]] 1 ''sample'' PyFalse 10 (0, 0))) \<noteq> 0 \<and>
   fst (rng_next demo_lib
          (fst (snd (do_CUR demo_lib [[1, 2], [3, 4], [5, 6]] 1 ''sample'' PyFalse 10 (0, 0)))))
     \<noteq> fst (rng_next demo_lib 0)"
  by (simp add: demo_stochastic_first demo_rng_next)

section \<open>Properties of CURFilter\<close>

subsection \<open>Helper facts\<close>

lemma py_prefix_nonneg: "0 \<le> k \<Longrightarrow> py_prefix xs k = take (nat k) xs"
  by (simp add: py_prefix_def)

lemma py_prefix_oversized: "int (length xs) \<le> k \<Longrightarrow> py_prefix xs k = xs"
  by (simp add: py_prefix_def)

lemma truncate_by_species_within:
  assumes "override_covers by_sp ns"
  shows "truncate_by_species by_sp ns = Inr (sorted_prefixes by_sp ns)"
  using assms
proof (induction by_sp)
  case Nil
  show ?case by (simp add: sorted_prefixes_def)
next
  case (Cons p by_sp)
  obtain sp val where p: "p = (sp, val)" by (cases p)
  from Cons.prems p obtain k where k: "map_of ns sp = Some k" "0 \<le> k"
    and rest: "override_covers by_sp ns"
    by (auto simp: override_covers_def split: option.splits)
  have "truncate_by_species by_sp ns = Inr (sorted_prefixes by_sp ns)"
    using Cons.IH rest by simp
  then show ?case
    using p k
    by (simp add: sorted_prefixes_def group_budget_def truncate_sorted_def py_prefix_nonneg)
qed

lemma override_within_covers: "override_within by_sp ns \<Longrightarrow> override_covers by_sp ns"
  by (auto simp: override_within_def override_covers_def list_all_iff split: option.splits)

lemma remap_sample_keeps: "without_ids (snd (remap_sample C F m sel)) = without_ids F"
  by (simp add: remap_sample_def without_ids_def split: sum.splits)

lemma remap_per_species_keeps:
  "without_ids (snd (remap_per_species C F m sel t sps)) = without_ids F"
  by (simp add: remap_per_species_def without_ids_def split: sum.splits)

lemma transform_keeps: "without_ids (snd (transform L C F m n)) = without_ids F"
  unfolding transform_def Let_def
  by (simp add: remap_sample_keeps remap_per_species_keeps
      split: budget.splits sum.splits option.splits prod.splits)
    (simp add: without_ids_def)

lemma transforms_keeps: "without_ids (transforms L C F calls) = without_ids F"
proof (induction calls arbitrary: F)
  case Nil
  show ?case by simp
next
  case (Cons c calls)
  obtain m n where c: "c = (m, n)" by (cases c)
  have "without_ids (transforms L C F (c # calls)) =
        without_ids (snd (transform L C F m n))"
    using c Cons.IH[of "snd (transform L C F m n)"] by simp
  then show ?case by (simp add: transform_keeps)
qed

lemma without_ids_fields:
  assumes "without_ids F' = without_ids F"
  shows "act_on F' = act_on F" "Nselect F' = Nselect F"
    "representation F' = representation F"
    "selected_sample_ids F' = selected_sample_ids F"
    "selected_sample_ids_by_sp F' = selected_sample_ids_by_sp F"
    "selected_feature_ids_global F' = selected_feature_ids_global F"
proof -
  have "act_on (without_ids F') = act_on (without_ids F)" using assms by simp
  then show "act_on F' = act_on F" by (simp add: without_ids_def)
  have "Nselect (without_ids F') = Nselect (without_ids F)" using assms by simp
  then show "Nselect F' = Nselect F" by (simp add: without_ids_def)
  have "representation (without_ids F') = representation (without_ids F)" using assms by simp
  then show "representation F' = representation F" by (simp add: without_ids_def)
  have "selected_sample_ids (without_ids F') = selected_sample_ids (without_ids F)"
    using assms by simp
  then show "selected_sample_ids F' = selected_sample_ids F" by (simp add: without_ids_def)
  have "selected_sample_ids_by_sp (without_ids F') = selected_sample_ids_by_sp (without_ids F)"
    using assms by simp
  then show "selected_sample_ids_by_sp F' = selected_sample_ids_by_sp F"
    by (simp add: without_ids_def)
  have "selected_feature_ids_global (without_ids F') = selected_feature_ids_global (without_ids F)"
    using assms by simp
  then show "selected_feature_ids_global F' = selected_feature_ids_global F"
    by (simp add: without_ids_def)
qed

lemma transform_sample:
  assumes "act_on F = ''sample''" "selected_sample_ids F = Some cached"
  shows "transform L C F m (Some (Count k)) = remap_sample C F m (truncate_sorted cached k)"
  using assms by (simp add: transform_def)

lemma transform_per_species:
  assumes "act_on F = ''sample per species''" "selected_sample_ids_by_sp F = Some by_sp"
    and "truncate_by_species by_sp ns = Inr sel"
  shows "transform L C F m (Some (BySpecies ns)) =
           (case get_index_mappings_sample_per_species C m (map fst ns) of
              Inl e \<Rightarrow> (Inl e, F)
            | Inr (tables, indices_by_sp) \<Rightarrow>
                remap_per_species C F m sel tables (map fst ns))"
  using assms by (simp add: transform_def split: sum.splits)


lemma remap_sample_ignores_scratch:
  "remap_sample C (F\<lparr>XX := a, fps_minmax_d2_by_sp := b, fps_hausforff_d2_by_sp := c\<rparr>) m sel =
     (fst (remap_sample C F m sel),
      (snd (remap_sample C F m sel))\<lparr>XX := a, fps_minmax_d2_by_sp := b,
         fps_hausforff_d2_by_sp := c\<rparr>)"
  by (simp add: remap_sample_def split: sum.splits)

lemma remap_per_species_ignores_scratch:
  "remap_per_species C (F\<lparr>XX := a, fps_minmax_d2_by_sp := b, fps_hausforff_d2_by_sp := c\<rparr>)
       m sel t sps =
     (fst (remap_per_species C F m sel t sps),
      (snd (remap_per_species C F m sel t sps))\<lparr>XX := a, fps_minmax_d2_by_sp := b,
         fps_hausforff_d2_by_sp := c\<rparr>)"
  by (simp add: remap_per_species_def split: sum.splits)

lemma transform_ignores_scratch:
  "transform L C (F\<lparr>XX := a, fps_minmax_d2_by_sp := b, fps_hausforff_d2_by_sp := c\<rparr>) m n =
     (fst (transform L C F m n),
      (snd (transform L C F m n))\<lparr>XX := a, fps_minmax_d2_by_sp := b, fps_hausforff_d2_by_sp := c\<rparr>)"
proof -
  consider (species) "act_on F = ''sample per species''"
    | (sample) "act_on F \<noteq> ''sample per species''" "act_on F = ''sample''"
    | (feature) "act_on F \<noteq> ''sample per species''" "act_on F \<noteq> ''sample''"
        "act_on F = ''feature''"
    | (other) "act_on F \<noteq> ''sample per species''" "act_on F \<noteq> ''sample''"
        "act_on F \<noteq> ''feature''"
    by blast
  then show ?thesis
  proof cases
    case species
    then show ?thesis
      by (auto simp: transform_def Let_def remap_per_species_ignores_scratch
          split: budget.splits sum.splits option.splits prod.splits)
  next
    case sample
    then show ?thesis
      by (auto simp: transform_def Let_def remap_sample_ignores_scratch
          split: budget.splits option.splits)
  next
    case feature
    then show ?thesis
      by (auto simp: transform_def Let_def
          split: budget.splits sum.splits option.splits)
  next
    case other
    then show ?thesis by (simp add: transform_def Let_def)
  qed
qed


lemma restored_filter:
  assumes "init_from (get_init_params x) = Inr y"
  shows "set_data y (get_data x) =
           x\<lparr>XX := None, fps_minmax_d2_by_sp := None, fps_hausforff_d2_by_sp := None\<rparr>"
  using assms
  by (cases x)
    (auto simp: init_from_def get_init_params_def init_def set_data_def get_data_def
      split: if_splits)

lemma init_from_accepts:
  assumes "act_on x \<in> set [''sample'', ''sample per species'', ''feature'']"
  shows "\<exists>y. init_from (get_init_params x) = Inr y"
  using assms by (auto simp: init_from_def get_init_params_def init_def)

lemma demo_remap_sample:
  "fst (remap_sample demo_collab F m sel) = Inr (SelectedIds sel)"
  by (simp add: remap_sample_def demo_collab_def)

lemma demo_remap_per_species:
  "fst (remap_per_species demo_collab F m by_sp t sps) = Inr (PseudoPoints (concat (map snd by_sp)))"
  by (simp add: remap_per_species_def demo_collab_def)

lemma demo_index_mappings:
  "get_index_mappings_sample_per_species demo_collab ([], []) sps = Inr ((), map (\<lambda>sp. (sp, [])) sps)"
  by (simp add: demo_collab_def)


subsection \<open>Claims about transform and persistence\<close>

text \<open>
  C7. For a fitted filter in mode \<open>'sample'\<close> or \<open>'sample per species'\<close>, after any
  sequence of \<open>transform\<close> calls, and for every per-group override budget \<open>k\<close> between 0
  and the length of the group's cached selection (which is the budget used at fit
  time), the selection that \<open>transform\<close> hands to the remapping is, for each group,
  the ascending sort of the first \<open>k\<close> elements of the group's cached fit-time
  selection, of length \<open>k\<close>. The cached selection itself is what \<open>fit\<close> stored, and
  \<open>transform\<close> does not run the selection again.
\<close>

theorem transform_truncates_cached_selection:
  assumes seq: "F' = transforms L C F calls"
  shows "(act_on F = ''sample'' \<and> selected_sample_ids F = Some cached \<and>
            0 \<le> k \<and> k \<le> int (length cached) \<longrightarrow>
            transform L C F' m (Some (Count k)) =
              remap_sample C F' m (sort (take (nat k) cached)) \<and>
            length (sort (take (nat k) cached)) = nat k) \<and>
         (act_on F = ''sample per species'' \<and> selected_sample_ids_by_sp F = Some by_sp \<and>
            override_within by_sp ns \<longrightarrow>
            transform L C F' m (Some (BySpecies ns)) =
              (case get_index_mappings_sample_per_species C m (map fst ns) of
                 Inl e \<Rightarrow> (Inl e, F')
               | Inr (tables, indices_by_sp) \<Rightarrow>
                   remap_per_species C F' m (sorted_prefixes by_sp ns) tables (map fst ns)) \<and>
            (\<forall>(sp, val)\<in>set by_sp.
               length (sort (take (nat (group_budget ns sp)) val)) = nat (group_budget ns sp))) \<and>
         selected_sample_ids F' = selected_sample_ids F \<and>
         selected_sample_ids_by_sp F' = selected_sample_ids_by_sp F"
proof -
  have keep: "without_ids F' = without_ids F" using seq by (simp add: transforms_keeps)
  note same = without_ids_fields[OF keep]
  have sample:
    "transform L C F' m (Some (Count k)) = remap_sample C F' m (sort (take (nat k) cached)) \<and>
     length (sort (take (nat k) cached)) = nat k"
    if "act_on F = ''sample''" "selected_sample_ids F = Some cached" "0 \<le> k"
      "k \<le> int (length cached)"
  proof -
    have "transform L C F' m (Some (Count k)) = remap_sample C F' m (truncate_sorted cached k)"
      using that same by (intro transform_sample) simp_all
    moreover have "truncate_sorted cached k = sort (take (nat k) cached)"
      using that(3) by (simp add: truncate_sorted_def py_prefix_nonneg)
    moreover have "length (sort (take (nat k) cached)) = nat k" using that(3,4) by simp
    ultimately show ?thesis by simp
  qed
  have species:
    "transform L C F' m (Some (BySpecies ns)) =
       (case get_index_mappings_sample_per_species C m (map fst ns) of
          Inl e \<Rightarrow> (Inl e, F')
        | Inr (tables, indices_by_sp) \<Rightarrow>
            remap_per_species C F' m (sorted_prefixes by_sp ns) tables (map fst ns)) \<and>
     (\<forall>(sp, val)\<in>set by_sp.
        length (sort (take (nat (group_budget ns sp)) val)) = nat (group_budget ns sp))"
    if "act_on F = ''sample per species''" "selected_sample_ids_by_sp F = Some by_sp"
      "override_within by_sp ns"
  proof -
    have t: "truncate_by_species by_sp ns = Inr (sorted_prefixes by_sp ns)"
      using that(3) by (intro truncate_by_species_within override_within_covers)
    have a: "act_on F' = ''sample per species''" "selected_sample_ids_by_sp F' = Some by_sp"
      using that same by simp_all
    have "length (sort (take (nat (group_budget ns sp)) val)) = nat (group_budget ns sp)"
      if "(sp, val) \<in> set by_sp" for sp val
    proof -
      have "case map_of ns sp of None \<Rightarrow> False | Some k \<Rightarrow> 0 \<le> k \<and> k \<le> int (length val)"
        using \<open>override_within by_sp ns\<close> that
        by (auto simp: override_within_def list_all_iff)
      then have "group_budget ns sp \<le> int (length val)"
        by (simp add: group_budget_def split: option.splits)
      then show ?thesis by simp
    qed
    then show ?thesis using transform_per_species[OF a t] by auto
  qed
  show ?thesis using sample species same by blast
qed

theorem transform_truncates_cached_selection_witness:
  "fst (transform demo_lib demo_collab
          (transforms demo_lib demo_collab demo_filter [(([], []), None)])
          ([], []) (Some (Count 2))) = Inr (SelectedIds [1, 4]) \<and>
   fst (transform demo_lib demo_collab
          (transforms demo_lib demo_collab demo_filter_by_species [(([], []), None)])
          ([], []) (Some (BySpecies [(6, 1), (1, 1)]))) = Inr (PseudoPoints [2, 1])"
proof -
  have a: "act_on demo_filter = ''sample'' \<and> selected_sample_ids demo_filter = Some [4, 1, 3] \<and>
           (0::int) \<le> 2 \<and> 2 \<le> int (length [4, 1, 3 :: nat])"
    by (simp add: demo_filter_def)
  have b: "act_on demo_filter_by_species = ''sample per species'' \<and>
           selected_sample_ids_by_sp demo_filter_by_species = Some [(1, [2, 0]), (6, [1])] \<and>
           override_within [(1, [2, 0]), (6, [1])] [(6, 1), (1, 1)]"
    by (simp add: demo_filter_by_species_def override_within_def)
  have s: "sort (take (nat 2) [4, 1, 3 :: nat]) = [1, 4]" by (simp add: numeral_2_eq_2)
  have p: "sorted_prefixes [(1, [2, 0]), (6, [1])] [(6, 1), (1, 1)] = [(1, [2]), (6, [1])]"
    by (simp add: sorted_prefixes_def group_budget_def)
  from transform_truncates_cached_selection[OF refl,
      of demo_filter "[4, 1, 3]" 2 demo_lib demo_collab "[(([], []), None)]" "([], [])"] a s
  have 1: "fst (transform demo_lib demo_collab
          (transforms demo_lib demo_collab demo_filter [(([], []), None)])
          ([], []) (Some (Count 2))) = Inr (SelectedIds [1, 4])"
    by (simp add: demo_remap_sample)
  from transform_truncates_cached_selection[OF refl,
      of demo_filter_by_species _ _ demo_lib demo_collab "[(([], []), None)]" "([], [])"
         "[(1, [2, 0]), (6, [1])]" "[(6, 1), (1, 1)]"] b p
  have 2: "fst (transform demo_lib demo_collab
          (transforms demo_lib demo_collab demo_filter_by_species [(([], []), None)])
          ([], []) (Some (BySpecies [(6, 1), (1, 1)]))) = Inr (PseudoPoints [2, 1])"
    by (simp add: demo_index_mappings demo_remap_per_species)
  from 1 2 show ?thesis ..
qed

text \<open>
  C10. When the override budget of a group exceeds the length of the group's cached
  selection, the truncation raises nothing: it keeps the whole cached selection, and
  \<open>transform\<close> hands all cached indices of the group, sorted, to the remapping, which
  are fewer than requested.
\<close>

theorem transform_oversized_override_clamps:
  "(act_on F = ''sample'' \<and> selected_sample_ids F = Some cached \<and>
      int (length cached) < k \<longrightarrow>
      transform L C F m (Some (Count k)) = remap_sample C F m (sort cached) \<and>
      int (length (sort cached)) < k) \<and>
   (act_on F = ''sample per species'' \<and> selected_sample_ids_by_sp F = Some by_sp \<and>
      override_covers by_sp ns \<longrightarrow>
      transform L C F m (Some (BySpecies ns)) =
        (case get_index_mappings_sample_per_species C m (map fst ns) of
           Inl e \<Rightarrow> (Inl e, F)
         | Inr (tables, indices_by_sp) \<Rightarrow>
             remap_per_species C F m (sorted_prefixes by_sp ns) tables (map fst ns)) \<and>
      (\<forall>(sp, val)\<in>set by_sp.
         int (length val) < group_budget ns sp \<longrightarrow>
           (sp, sort val) \<in> set (sorted_prefixes by_sp ns) \<and>
           int (length (sort val)) < group_budget ns sp))"
proof -
  have sample:
    "transform L C F m (Some (Count k)) = remap_sample C F m (sort cached) \<and>
     int (length (sort cached)) < k"
    if "act_on F = ''sample''" "selected_sample_ids F = Some cached" "int (length cached) < k"
  proof -
    have "truncate_sorted cached k = sort cached"
      using that(3) by (simp add: truncate_sorted_def py_prefix_oversized)
    then show ?thesis using transform_sample[OF that(1,2), of L C m k] that(3) by simp
  qed
  have species:
    "transform L C F m (Some (BySpecies ns)) =
        (case get_index_mappings_sample_per_species C m (map fst ns) of
           Inl e \<Rightarrow> (Inl e, F)
         | Inr (tables, indices_by_sp) \<Rightarrow>
             remap_per_species C F m (sorted_prefixes by_sp ns) tables (map fst ns)) \<and>
      (\<forall>(sp, val)\<in>set by_sp.
         int (length val) < group_budget ns sp \<longrightarrow>
           (sp, sort val) \<in> set (sorted_prefixes by_sp ns) \<and>
           int (length (sort val)) < group_budget ns sp)"
    if "act_on F = ''sample per species''" "selected_sample_ids_by_sp F = Some by_sp"
      "override_covers by_sp ns"
  proof -
    have t: "truncate_by_species by_sp ns = Inr (sorted_prefixes by_sp ns)"
      using that(3) by (rule truncate_by_species_within)
    have "(sp, sort val) \<in> set (sorted_prefixes by_sp ns)"
      if "(sp, val) \<in> set by_sp" "int (length val) < group_budget ns sp" for sp val
    proof -
      have "(sp, sort (take (nat (group_budget ns sp)) val)) \<in> set (sorted_prefixes by_sp ns)"
        using that(1) by (force simp: sorted_prefixes_def)
      moreover have "take (nat (group_budget ns sp)) val = val" using that(2) by simp
      ultimately show ?thesis by simp
    qed
    then show ?thesis using transform_per_species[OF that(1,2) t, of L C m] by auto
  qed
  show ?thesis using sample species by blast
qed

theorem transform_oversized_override_clamps_witness:
  "fst (transform demo_lib demo_collab demo_filter ([], []) (Some (Count 5)))
     = Inr (SelectedIds [1, 3, 4]) \<and>
   fst (transform demo_lib demo_collab demo_filter_by_species ([], [])
          (Some (BySpecies [(6, 4), (1, 1)]))) = Inr (PseudoPoints [2, 1])"
proof -
  have a: "act_on demo_filter = ''sample'' \<and> selected_sample_ids demo_filter = Some [4, 1, 3] \<and>
           int (length [4, 1, 3 :: nat]) < 5"
    by (simp add: demo_filter_def)
  have b: "act_on demo_filter_by_species = ''sample per species'' \<and>
           selected_sample_ids_by_sp demo_filter_by_species = Some [(1, [2, 0]), (6, [1])] \<and>
           override_covers [(1, [2, 0]), (6, [1])] [(6, 4), (1, 1)]"
    by (simp add: demo_filter_by_species_def override_covers_def)
  have p: "sorted_prefixes [(1, [2, 0]), (6, [1])] [(6, 4), (1, 1)] = [(1, [2]), (6, [1])]"
    by (simp add: sorted_prefixes_def group_budget_def)
  from transform_oversized_override_clamps[of demo_filter "[4, 1, 3]" 5 demo_lib demo_collab
      "([], [])"] a
  have 1: "fst (transform demo_lib demo_collab demo_filter ([], []) (Some (Count 5)))
     = Inr (SelectedIds [1, 3, 4])"
    by (simp add: demo_remap_sample)
  from transform_oversized_override_clamps[of demo_filter_by_species _ _ demo_lib demo_collab
      "([], [])" "[(1, [2, 0]), (6, [1])]" "[(6, 4), (1, 1)]"] b p
  have 2: "fst (transform demo_lib demo_collab demo_filter_by_species ([], [])
          (Some (BySpecies [(6, 4), (1, 1)]))) = Inr (PseudoPoints [2, 1])"
    by (simp add: demo_index_mappings demo_remap_per_species)
  from 1 2 show ?thesis ..
qed

text \<open>
  C8. For a filter \<open>x\<close> in any of the three modes, a filter constructed from \<open>x\<close>'s own
  parameters on which the state mapping extracted from \<open>x\<close> is restored gives, for the
  same inputs, the output that \<open>transform\<close> gives on \<open>x\<close>, and records the same
  selection; \<open>fit\<close> is not run on it.
\<close>

theorem restore_state_round_trip:
  assumes "act_on x \<in> set [''sample'', ''sample per species'', ''feature'']"
  shows "\<exists>y. init_from (get_init_params x) = Inr y \<and>
           fst (transform L C (set_data y (get_data x)) m n) = fst (transform L C x m n) \<and>
           selected_ids (snd (transform L C (set_data y (get_data x)) m n)) =
             selected_ids (snd (transform L C x m n))"
proof -
  obtain y :: "('a, 'b) CURFilter" where y: "init_from (get_init_params x) = Inr y"
    using init_from_accepts[OF assms] by blast
  have "set_data y (get_data x) =
          x\<lparr>XX := None, fps_minmax_d2_by_sp := None, fps_hausforff_d2_by_sp := None\<rparr>"
    using y by (rule restored_filter)
  then have "transform L C (set_data y (get_data x)) m n =
      (fst (transform L C x m n),
       (snd (transform L C x m n))\<lparr>XX := None, fps_minmax_d2_by_sp := None,
          fps_hausforff_d2_by_sp := None\<rparr>)"
    by (simp only: transform_ignores_scratch)
  then show ?thesis using y by simp
qed

theorem restore_state_round_trip_witness:
  "\<exists>y. init_from (get_init_params demo_filter) = Inr y \<and>
       fst (transform demo_lib demo_collab (set_data y (get_data demo_filter)) ([], []) None) =
         fst (transform demo_lib demo_collab demo_filter ([], []) None)"
proof -
  have "act_on demo_filter \<in> set [''sample'', ''sample per species'', ''feature'']"
    by (simp add: demo_filter_def)
  from restore_state_round_trip[OF this, of demo_lib demo_collab "([], [])" None]
  show ?thesis by blast
qed


subsection \<open>Helper facts about fit\<close>

lemma do_CUR_returns:
  assumes "1 \<le> k" "k < int (min (n_rows X) (n_cols X))"
    and "py_in ''sample'' a"
    and "det = PyTrue \<or> (det = PyFalse \<and> 0 \<le> s \<and> s < 2 ^ 32)"
    and "svd_factors L X (nat k) w = (Inr f, w1)"
  shows "\<exists>sel w'. do_CUR L X k a det s w = (Inr sel, w')"
proof -
  obtain U VT where f: "f = (U, VT)" by (cases f)
  have sv: "svds L X k w = (Inr (U, VT), w1)"
    using svds_accepts[OF assms(1,2), of L w] assms(5) f by simp
  have wt: "leverage_weights a U VT = Some (mean_square_rows U)"
    using assms(3) by (simp add: leverage_weights_def)
  show ?thesis
  proof (cases "det = PyTrue")
    case True
    then show ?thesis using do_CUR_deterministic_eq[OF sv wt, of s] by simp
  next
    case False
    then have "det = PyFalse" "0 \<le> s" "s < 2 ^ 32" using assms(4) by simp_all
    then show ?thesis using do_CUR_stochastic_eq[OF sv wt] by simp
  qed
qed

lemma do_CUR_over_budget:
  assumes "n_rows X = 0 \<or> int (n_rows X) \<le> k \<or> int (n_cols X) \<le> k"
  shows "do_CUR L X k a det s w = (Inl ValueError, w)"
proof -
  have "k \<le> 0 \<or> int (min (n_rows X) (n_cols X)) \<le> k" using assms by auto
  then show ?thesis by (intro do_CUR_rejects svds_rejects)
qed


lemma select_by_species_reject:
  assumes "map_of XS sp = Some Xsp" "map_of d sp = Some k"
    and "n_rows Xsp = 0 \<or> int (n_rows Xsp) \<le> k"
  shows "select_by_species L XS d (sp # post) F w = (Some ValueError, F, w)"
proof -
  have "do_CUR L Xsp k (act_on F) (is_deterministic F) (seed F) w = (Inl ValueError, w)"
    using assms(3) by (intro do_CUR_over_budget) auto
  then show ?thesis using assms(1,2) by simp
qed

lemma select_by_species_append:
  "select_by_species L XS d (pre @ rest) F w =
     (case select_by_species L XS d pre F w of
        (None, F', w') \<Rightarrow> select_by_species L XS d rest F' w'
      | (Some e, F', w') \<Rightarrow> (Some e, F', w'))"
proof (induction pre arbitrary: F w)
  case Nil
  show ?case by simp
next
  case (Cons sp pre)
  show ?case
    by (simp add: Cons.IH split: option.splits sum.splits prod.splits)
qed

lemma select_by_species_accepted:
  assumes "list_all (accepted XS d) sps"
    and "\<forall>sp\<in>set sps. \<forall>Xsp k w. map_of XS sp = Some Xsp \<and> map_of d sp = Some k \<longrightarrow>
           (\<exists>f w'. svd_factors L Xsp (nat k) w = (Inr f, w'))"
    and "py_in ''sample'' (act_on F)"
    and "is_deterministic F = PyTrue \<or>
         (is_deterministic F = PyFalse \<and> 0 \<le> seed F \<and> seed F < 2 ^ 32)"
    and "selected_sample_ids_by_sp F = Some m0"
  shows "\<exists>F' w' by_sp. select_by_species L XS d sps F w = (None, F', w') \<and>
           selected_sample_ids_by_sp F' = Some by_sp \<and>
           fst ` set by_sp = fst ` set m0 \<union> set sps \<and>
           without_by_sp F' = without_by_sp F"
  using assms
proof (induction sps arbitrary: F w m0)
  case Nil
  then show ?case by simp
next
  case (Cons sp sps)
  from Cons.prems(1) obtain Xsp k where
    x: "map_of XS sp = Some Xsp" and k: "map_of d sp = Some k"
    and ok: "1 \<le> k" "k < int (min (n_rows Xsp) (n_cols Xsp))"
    by (auto simp: accepted_def split: option.splits)
  have "\<exists>f w1. svd_factors L Xsp (nat k) w = (Inr f, w1)"
    using Cons.prems(2) x k by (simp del: split_paired_All split_paired_Ex)
  then obtain f w1 where f: "svd_factors L Xsp (nat k) w = (Inr f, w1)" by blast
  obtain sel w2 where
    c: "do_CUR L Xsp k (act_on F) (is_deterministic F) (seed F) w = (Inr sel, w2)"
    using do_CUR_returns[OF ok Cons.prems(3,4) f] by blast
  let ?F1 = "F\<lparr>selected_sample_ids_by_sp := Some (AList.update sp sel m0)\<rparr>"
  have step: "select_by_species L XS d (sp # sps) F w = select_by_species L XS d sps ?F1 w2"
    using x k c Cons.prems(5) by simp
  have "\<exists>F' w' by_sp. select_by_species L XS d sps ?F1 w2 = (None, F', w') \<and>
           selected_sample_ids_by_sp F' = Some by_sp \<and>
           fst ` set by_sp = fst ` set (AList.update sp sel m0) \<union> set sps \<and>
           without_by_sp F' = without_by_sp ?F1"
    using Cons.prems by (intro Cons.IH) simp_all
  then obtain F' w' by_sp where r: "select_by_species L XS d sps ?F1 w2 = (None, F', w')"
    "selected_sample_ids_by_sp F' = Some by_sp"
    "fst ` set by_sp = fst ` set (AList.update sp sel m0) \<union> set sps"
    "without_by_sp F' = without_by_sp ?F1"
    by blast
  have "fst ` set by_sp = fst ` set m0 \<union> set (sp # sps)"
    using r(3) by (auto simp: AList.dom_update)
  moreover have "without_by_sp F' = without_by_sp F" using r(4) by (simp add: without_by_sp_def)
  ultimately show ?case using step r(1,2) by simp
qed


lemma fit_per_species:
  assumes "act_on F = ''sample per species''" "Nselect F = BySpecies d"
    and "get_features C m (representation F) = Inr X"
    and "get_index_mappings_sample_per_species C m (map fst d) = Inr (t, ind)"
    and "organize_by_species X ind (map fst d) [] = Inr XS"
  shows "fit L C F m w =
           select_by_species L XS d (map fst d)
             (F\<lparr> XX := Some XS, selected_sample_ids_by_sp := Some [],
                 fps_minmax_d2_by_sp := Some [], fps_hausforff_d2_by_sp := Some [] \<rparr>) w"
  using assms by (simp add: fit_def)

text \<open>The instances at the structure collections used in the examples.\<close>

lemma demo5_mappings:
  "get_index_mappings_sample_per_species demo_collab
       ([[1, 2], [3, 4], [5, 6], [7, 8]], [1, 1, 1, 6]) [1, 6]
     = Inr ((), [(1, [0, 1, 2]), (6, [3])])"
  by (simp add: demo_collab_def)

lemma demo5_organize:
  "organize_by_species [[1, 2], [3, 4], [5, 6], [7, 8]] [(1, [0, 1, 2]), (6, [3])] [1, 6] []
     = Inr [(1, [[1, 2], [3, 4], [5, 6]]), (6, [[7, 8]])]"
  by (simp add: take_rows_def)

lemma demo5_weights:
  "leverage_weights ''sample per species'' [[1], [3], [5]] [[1, 2]] = Some [1, 9, 25]"
  by (simp add: leverage_weights_def mean_square_rows_def)

lemma demo5_sorted: "stable_argsort [- 1, - 9, - 25] = [2, 1, 0]"
  by (simp add: stable_argsort_def upt_rec)

lemma demo5_select:
  "do_CUR demo_lib [[1, 2], [3, 4], [5, 6]] 1 ''sample per species'' PyTrue 10 (g, 0)
     = (Inr [2], (g, 1))"
  by (simp add: do_CUR_deterministic_eq[OF demo_svds_first demo5_weights] demo_argsort
      demo5_sorted)

lemma demo5_accepted:
  "list_all (accepted [(1, [[1, 2], [3, 4], [5, 6]]), (6, [[7, 8]])] [(1, 1), (6, 2)]) [1]"
  by (simp add: accepted_def n_rows_def n_cols_def)

lemma demo5_returns:
  "\<forall>sp\<in>set [1]. \<forall>Xsp k w.
     map_of [(1 :: int, [[1, 2], [3, 4], [5, 6 :: real]]), (6, [[7, 8]])] sp = Some Xsp \<and>
     map_of [(1 :: int, 1 :: int), (6, 2)] sp = Some k \<longrightarrow>
     (\<exists>f w'. svd_factors demo_lib Xsp (nat k) w = (Inr f, w'))"
  by (simp add: demo_lib_def)












subsection \<open>Claims about fit\<close>

text \<open>
  C5, as the code has it. The only check of the budget is the argument check of
  \<open>svds\<close>. In modes \<open>'sample'\<close> and \<open>'feature'\<close>, a budget that is at least the number
  of samples, respectively features, makes \<open>fit\<close> fail with the \<open>ValueError\<close> of that
  check before anything is factorised, and the filter is left as it was. In mode
  \<open>'sample per species'\<close>, when a species of the budget mapping has no rows or a
  budget that is at least its number of rows, and the species before it in the order of
  the mapping are selected without an exception (their budgets are accepted, the solver
  returns factors for them, and the seed is one that \<open>np.random.seed\<close> accepts), \<open>fit\<close>
  fails with that \<open>ValueError\<close> at this species: the species before it have been
  factorised, and the filter is left with \<open>_XX\<close> assigned and with the selections of
  exactly those species stored.
\<close>

theorem fit_rejects_oversized_budget:
  assumes feats: "get_features C m (representation F) = Inr X"
  shows "(act_on F = ''sample'' \<and> Nselect F = Count n \<and> int (n_rows X) \<le> n \<longrightarrow>
            fit L C F m w = (Some ValueError, F, w)) \<and>
         (act_on F = ''feature'' \<and> Nselect F = Count n \<and> int (n_cols X) \<le> n \<longrightarrow>
            fit L C F m w = (Some ValueError, F, w)) \<and>
         (act_on F = ''sample per species'' \<and> Nselect F = BySpecies d \<and>
            (is_deterministic F = PyTrue \<or>
             (is_deterministic F = PyFalse \<and> 0 \<le> seed F \<and> seed F < 2 ^ 32)) \<and>
            get_index_mappings_sample_per_species C m (map fst d) = Inr (t, ind) \<and>
            organize_by_species X ind (map fst d) [] = Inr XS \<and>
            map fst d = pre @ sp # post \<and> list_all (accepted XS d) pre \<and>
            (\<forall>sp'\<in>set pre. \<forall>Xsp' k' w'.
               map_of XS sp' = Some Xsp' \<and> map_of d sp' = Some k' \<longrightarrow>
               (\<exists>f w''. svd_factors L Xsp' (nat k') w' = (Inr f, w''))) \<and>
            map_of XS sp = Some Xsp \<and> map_of d sp = Some k \<and>
            (n_rows Xsp = 0 \<or> int (n_rows Xsp) \<le> k) \<longrightarrow>
            (\<exists>F1 w1 by_sp.
               select_by_species L XS d pre
                 (F\<lparr> XX := Some XS, selected_sample_ids_by_sp := Some [],
                     fps_minmax_d2_by_sp := Some [], fps_hausforff_d2_by_sp := Some [] \<rparr>) w
                 = (None, F1, w1) \<and>
               fit L C F m w = (Some ValueError, F1, w1) \<and>
               selected_sample_ids_by_sp F1 = Some by_sp \<and> fst ` set by_sp = set pre \<and>
               XX F1 = Some XS))"
proof -
  have sample: "fit L C F m w = (Some ValueError, F, w)"
    if "act_on F = ''sample''" "Nselect F = Count n" "int (n_rows X) \<le> n"
  proof -
    have "do_CUR L X n (act_on F) (is_deterministic F) (seed F) w = (Inl ValueError, w)"
      using that(3) by (intro do_CUR_over_budget) simp
    then show ?thesis using that(1,2) feats by (simp add: fit_def)
  qed
  have feature: "fit L C F m w = (Some ValueError, F, w)"
    if "act_on F = ''feature''" "Nselect F = Count n" "int (n_cols X) \<le> n"
  proof -
    have "do_CUR L X n (act_on F) (is_deterministic F) (seed F) w = (Inl ValueError, w)"
      using that(3) by (intro do_CUR_over_budget) simp
    then show ?thesis using that(1,2) feats by (simp add: fit_def)
  qed
  have species:
    "\<exists>F1 w1 by_sp.
       select_by_species L XS d pre
         (F\<lparr> XX := Some XS, selected_sample_ids_by_sp := Some [],
             fps_minmax_d2_by_sp := Some [], fps_hausforff_d2_by_sp := Some [] \<rparr>) w
         = (None, F1, w1) \<and>
       fit L C F m w = (Some ValueError, F1, w1) \<and>
       selected_sample_ids_by_sp F1 = Some by_sp \<and> fst ` set by_sp = set pre \<and>
       XX F1 = Some XS"
    if mode: "act_on F = ''sample per species''" "Nselect F = BySpecies d"
      and policy: "is_deterministic F = PyTrue \<or>
             (is_deterministic F = PyFalse \<and> 0 \<le> seed F \<and> seed F < 2 ^ 32)"
      and maps: "get_index_mappings_sample_per_species C m (map fst d) = Inr (t, ind)"
      and org: "organize_by_species X ind (map fst d) [] = Inr XS"
      and split: "map fst d = pre @ sp # post"
      and good: "list_all (accepted XS d) pre"
      and returns: "\<forall>sp'\<in>set pre. \<forall>Xsp' k' w'.
               map_of XS sp' = Some Xsp' \<and> map_of d sp' = Some k' \<longrightarrow>
               (\<exists>f w''. svd_factors L Xsp' (nat k') w' = (Inr f, w''))"
      and bad: "map_of XS sp = Some Xsp" "map_of d sp = Some k"
        "n_rows Xsp = 0 \<or> int (n_rows Xsp) \<le> k"
  proof -
    let ?F0 = "F\<lparr> XX := Some XS, selected_sample_ids_by_sp := Some [],
                   fps_minmax_d2_by_sp := Some [], fps_hausforff_d2_by_sp := Some [] \<rparr>"
    have "\<exists>F' w' by_sp. select_by_species L XS d pre ?F0 w = (None, F', w') \<and>
           selected_sample_ids_by_sp F' = Some by_sp \<and>
           fst ` set by_sp = fst ` set ([] :: (int \<times> nat list) list) \<union> set pre \<and>
           without_by_sp F' = without_by_sp ?F0"
      using good returns mode(1) policy by (intro select_by_species_accepted) simp_all
    then obtain F1 w1 by_sp where
      pre: "select_by_species L XS d pre ?F0 w = (None, F1, w1)"
      and stored: "selected_sample_ids_by_sp F1 = Some by_sp" "fst ` set by_sp = set pre"
      and same: "without_by_sp F1 = without_by_sp ?F0"
      by auto
    have "XX (without_by_sp F1) = XX (without_by_sp ?F0)" using same by simp
    then have xx: "XX F1 = Some XS" by (simp add: without_by_sp_def)
    have "fit L C F m w = select_by_species L XS d (pre @ sp # post) ?F0 w"
      using fit_per_species[OF mode feats maps org, of L w] split by simp
    also have "\<dots> = select_by_species L XS d (sp # post) F1 w1"
      using pre by (simp add: select_by_species_append)
    also have "\<dots> = (Some ValueError, F1, w1)"
      using bad by (rule select_by_species_reject)
    finally show ?thesis using pre stored xx by blast
  qed
  show ?thesis using sample feature species by blast
qed

theorem fit_rejects_oversized_budget_witness:
  "fit demo_lib demo_collab demo_filter ([[1, 2], [3, 4], [5, 6]], [1, 1, 1]) (0, 0)
     = (Some ValueError, demo_filter, (0, 0)) \<and>
   fit demo_lib demo_collab (demo_filter\<lparr>act_on := ''feature''\<rparr>)
       ([[1, 2], [3, 4], [5, 6]], [1, 1, 1]) (0, 0)
     = (Some ValueError, demo_filter\<lparr>act_on := ''feature''\<rparr>, (0, 0)) \<and>
   fst (fit demo_lib demo_collab demo_unfitted
          ([[1, 2], [3, 4], [5, 6], [7, 8]], [1, 1, 1, 6]) (0, 0))
     = Some ValueError"
proof -
  let ?m = "([[1, 2], [3, 4], [5, 6 :: real]], [1, 1, 1 :: int])"
  let ?m4 = "([[1, 2], [3, 4], [5, 6], [7, 8 :: real]], [1, 1, 1, 6 :: int])"
  have f1: "get_features demo_collab ?m (representation demo_filter) = Inr [[1, 2], [3, 4], [5, 6]]"
    by (simp add: demo_collab_def)
  have h1: "act_on demo_filter = ''sample'' \<and> Nselect demo_filter = Count 3 \<and>
            int (n_rows [[1, 2], [3, 4], [5, 6]]) \<le> 3"
    by (simp add: demo_filter_def n_rows_def)
  have 1: "fit demo_lib demo_collab demo_filter ?m (0, 0) = (Some ValueError, demo_filter, (0, 0))"
    using fit_rejects_oversized_budget[OF f1, where n = 3 and L = demo_lib and w = "(0, 0)"] h1
    by blast
  let ?G = "demo_filter\<lparr>act_on := ''feature''\<rparr>"
  have f2: "get_features demo_collab ?m (representation ?G) = Inr [[1, 2], [3, 4], [5, 6]]"
    by (simp add: demo_collab_def)
  have h2: "act_on ?G = ''feature'' \<and> Nselect ?G = Count 3 \<and>
            int (n_cols [[1, 2], [3, 4], [5, 6]]) \<le> 3"
    by (simp add: demo_filter_def n_cols_def)
  have 2: "fit demo_lib demo_collab ?G ?m (0, 0) = (Some ValueError, ?G, (0, 0))"
    using fit_rejects_oversized_budget[OF f2, where n = 3 and L = demo_lib and w = "(0, 0)"] h2
    by blast
  have f3: "get_features demo_collab ?m4 (representation demo_unfitted)
      = Inr [[1, 2], [3, 4], [5, 6], [7, 8]]"
    by (simp add: demo_collab_def)
  have h3: "act_on demo_unfitted = ''sample per species'' \<and>
            Nselect demo_unfitted = BySpecies [(1, 1), (6, 2)] \<and>
            (is_deterministic demo_unfitted = PyTrue \<or>
             (is_deterministic demo_unfitted = PyFalse \<and> 0 \<le> seed demo_unfitted \<and>
              seed demo_unfitted < 2 ^ 32)) \<and>
            get_index_mappings_sample_per_species demo_collab ?m4
                (map fst [(1 :: int, 1 :: int), (6, 2)])
              = Inr ((), [(1, [0, 1, 2]), (6, [3])]) \<and>
            organize_by_species [[1, 2], [3, 4], [5, 6], [7, 8]] [(1, [0, 1, 2]), (6, [3])]
               (map fst [(1 :: int, 1 :: int), (6, 2)]) []
              = Inr [(1, [[1, 2], [3, 4], [5, 6]]), (6, [[7, 8]])] \<and>
            map fst [(1 :: int, 1 :: int), (6, 2)] = [1] @ 6 # [] \<and>
            list_all (accepted [(1, [[1, 2], [3, 4], [5, 6]]), (6, [[7, 8]])] [(1, 1), (6, 2)]) [1] \<and>
            (\<forall>sp\<in>set [1]. \<forall>Xsp k w.
               map_of [(1 :: int, [[1, 2], [3, 4], [5, 6 :: real]]), (6, [[7, 8]])] sp = Some Xsp \<and>
               map_of [(1 :: int, 1 :: int), (6, 2)] sp = Some k \<longrightarrow>
               (\<exists>f w'. svd_factors demo_lib Xsp (nat k) w = (Inr f, w'))) \<and>
            map_of [(1 :: int, [[1, 2], [3, 4], [5, 6 :: real]]), (6, [[7, 8]])] 6 = Some [[7, 8]] \<and>
            map_of [(1 :: int, 1 :: int), (6, 2)] 6 = Some 2 \<and>
            (n_rows [[7, 8]] = 0 \<or> int (n_rows [[7, 8]]) \<le> 2)"
    using demo5_mappings demo5_organize demo5_accepted demo5_returns
    by (simp add: demo_unfitted_def n_rows_def del: split_paired_All split_paired_Ex)
  have 3: "fst (fit demo_lib demo_collab demo_unfitted ?m4 (0, 0)) = Some ValueError"
    using fit_rejects_oversized_budget[OF f3, where d = "[(1, 1), (6, 2)]" and t = "()"
        and ind = "[(1, [0, 1, 2]), (6, [3])]"
        and XS = "[(1, [[1, 2], [3, 4], [5, 6]]), (6, [[7, 8]])]"
        and pre = "[1]" and sp = 6 and post = "[]" and Xsp = "[[7, 8]]" and k = 2
        and L = demo_lib and w = "(0, 0)"] h3
    by auto
  from 1 2 3 show ?thesis by simp
qed

text \<open>
  C5 as stated fails in mode \<open>'sample per species'\<close>. Species 6 has one row and
  a budget of two; \<open>fit\<close> fails, but species 1 has been factorised first, and the
  filter, which held no selection before the call, holds the selection of species 1
  after it.
\<close>

theorem fit_partial_state_counterexample:
  "fst (fit demo_lib demo_collab demo_unfitted
          ([[1, 2], [3, 4], [5, 6], [7, 8]], [1, 1, 1, 6]) (0, 0))
     = Some ValueError \<and>
   selected_sample_ids_by_sp
     (fst (snd (fit demo_lib demo_collab demo_unfitted
                  ([[1, 2], [3, 4], [5, 6], [7, 8]], [1, 1, 1, 6]) (0, 0))))
     = Some [(1, [2])] \<and>
   selected_sample_ids_by_sp demo_unfitted = None"
proof -
  let ?m = "([[1, 2], [3, 4], [5, 6], [7, 8 :: real]], [1, 1, 1, 6 :: int])"
  let ?F0 = "demo_unfitted\<lparr> XX := Some [(1, [[1, 2], [3, 4], [5, 6]]), (6, [[7, 8]])],
               selected_sample_ids_by_sp := Some [],
               fps_minmax_d2_by_sp := Some [], fps_hausforff_d2_by_sp := Some [] \<rparr>"
  have mode: "act_on demo_unfitted = ''sample per species''"
    "Nselect demo_unfitted = BySpecies [(1, 1), (6, 2)]"
    by (simp_all add: demo_unfitted_def)
  have feats: "get_features demo_collab ?m (representation demo_unfitted)
      = Inr [[1, 2], [3, 4], [5, 6], [7, 8]]"
    by (simp add: demo_collab_def)
  have maps: "get_index_mappings_sample_per_species demo_collab ?m
      (map fst [(1 :: int, 1 :: int), (6, 2)]) = Inr ((), [(1, [0, 1, 2]), (6, [3])])"
    using demo5_mappings by simp
  have org: "organize_by_species [[1, 2], [3, 4], [5, 6], [7, 8]] [(1, [0, 1, 2]), (6, [3])]
      (map fst [(1 :: int, 1 :: int), (6, 2)]) []
      = Inr [(1, [[1, 2], [3, 4], [5, 6]]), (6, [[7, 8]])]"
    using demo5_organize by simp
  have short: "do_CUR demo_lib [[7, 8]] 2 ''sample per species'' PyTrue 10 (0, Suc 0)
      = (Inl ValueError, (0, Suc 0))"
    by (intro do_CUR_over_budget) (simp add: n_rows_def)
  have flds: "act_on demo_unfitted = ''sample per species''"
    "is_deterministic demo_unfitted = PyTrue" "seed demo_unfitted = 10"
    by (simp_all add: demo_unfitted_def)
  have "fit demo_lib demo_collab demo_unfitted ?m (0, 0) =
        select_by_species demo_lib [(1, [[1, 2], [3, 4], [5, 6]]), (6, [[7, 8]])] [(1, 1), (6, 2)]
          (map fst [(1 :: int, 1 :: int), (6, 2)]) ?F0 (0, 0)"
    by (rule fit_per_species[OF mode feats maps org])
  also have "\<dots> = (Some ValueError, ?F0\<lparr>selected_sample_ids_by_sp := Some [(1, [2])]\<rparr>, (0, 1))"
    using demo5_select[of 0] by (simp add: flds short)
  finally show ?thesis by (simp add: demo_unfitted_def)
qed




end
